theory Spec2Isabelle
  imports Main "HOL-Library.Sublist"
begin

section \<open>Companies House search: a model of \<open>get_companies_house_companies.py\<close>\<close>

text \<open>
  The module has one function, \<open>search_companies\<close>. It fetches two pages, reads the
  table of SIC codes from one of them, and turns every result row of the other into a
  \<open>Company\<close>. The model below follows the function line by line. Every exception the
  Python can raise on the way is a value \<open>Inl e\<close> of the result.
\<close>

subsection \<open>Exceptions\<close>

text \<open>
  Four exception classes are raised by the operations the function uses:
  \<open>AttributeError\<close> (an attribute of \<open>None\<close>), \<open>IndexError\<close> (a list index out of
  range), \<open>KeyError\<close> (an \<open>Enum\<close> looked up by a name it does not have) and
  \<open>ValueError\<close>.
  \<open>ValueError\<close> is raised both by an \<open>Enum\<close> constructor that finds no member
  and by \<open>datetime.strptime\<close>; the payload records which, as the message does in
  Python.
\<close>

datatype value_error =
    NotAValidEnum string string
  | TimeDataNoMatch string
  | UnconvertedData string
  | DateOutOfRange

datatype error = AttributeError | IndexError | KeyError string | ValueError value_error

definition ebind :: "error + 'a \<Rightarrow> ('a \<Rightarrow> error + 'b) \<Rightarrow> error + 'b" where
  "ebind m f = (case m of Inl e \<Rightarrow> Inl e | Inr x \<Rightarrow> f x)"

subsection \<open>Python string and list primitives\<close>

text \<open>\<open>xs[i]\<close> for a literal index \<open>i \<ge> 0\<close>: \<open>IndexError\<close> out of range.\<close>

definition py_get :: "'a list \<Rightarrow> nat \<Rightarrow> error + 'a" where
  "py_get xs i = (if i < length xs then Inr (xs ! i) else Inl IndexError)"

text \<open>\<open>sub in s\<close> on strings: \<open>sub\<close> occurs in \<open>s\<close> as a contiguous run.\<close>

fun py_in :: "string \<Rightarrow> string \<Rightarrow> bool" where
  "py_in sub [] = (sub = [])"
| "py_in sub (c # cs) = (prefix sub (c # cs) \<or> py_in sub cs)"

text \<open>
  The first occurrence of \<open>sep\<close> in \<open>s\<close>, scanning from the left: the text before it
  and the text after it.
\<close>

fun find_sep :: "string \<Rightarrow> string \<Rightarrow> (string \<times> string) option" where
  "find_sep sep [] = (if sep = [] then Some ([], []) else None)"
| "find_sep sep (c # cs) =
     (if prefix sep (c # cs) then Some ([], drop (length sep) (c # cs))
      else (case find_sep sep cs of
              None \<Rightarrow> None
            | Some (b, a) \<Rightarrow> Some (c # b, a)))"

lemma find_sep_shorter:
  "find_sep sep s = Some (b, a) \<Longrightarrow> sep \<noteq> [] \<Longrightarrow> length a < length s"
proof (induction s arbitrary: b)
  case Nil
  then show ?case by simp
next
  case (Cons c cs)
  show ?case
  proof (cases "prefix sep (c # cs)")
    case True
    with Cons.prems show ?thesis by auto
  next
    case False
    with Cons.prems obtain b' where "find_sep sep cs = Some (b', a)"
      by (auto split: option.splits)
    with Cons.IH Cons.prems(2) show ?thesis by fastforce
  qed
qed

text \<open>
  \<open>s.split(sep)\<close>: the pieces of \<open>s\<close> between the non-overlapping occurrences of
  \<open>sep\<close>, found from the left. Python raises \<open>ValueError\<close> on an empty separator;
  every call of the module passes a non-empty literal, and the model returns \<open>[s]\<close>
  there.
\<close>

function py_split :: "string \<Rightarrow> string \<Rightarrow> string list" where
  "py_split sep s =
     (if sep = [] then [s]
      else (case find_sep sep s of
              None \<Rightarrow> [s]
            | Some (b, a) \<Rightarrow> b # py_split sep a))"
  by pat_completeness auto
termination
  by (relation "measure (\<lambda>(sep, s). length s)") (auto dest: find_sep_shorter)

declare py_split.simps [simp del]

text \<open>\<open>s.replace(" ", "+")\<close>.\<close>

definition replace_space_plus :: "string \<Rightarrow> string" where
  "replace_space_plus s = map (\<lambda>c. if c = CHR '' '' then CHR ''+'' else c) s"

subsection \<open>\<open>datetime.strptime(s, "%d %B %Y").date()\<close>\<close>

text \<open>
  The library function, for this one format, in the C locale. A \<open>char\<close> stands for a
  code point below 256, so a text is a Latin-1 text: there the whitespace of \<open>\s\<close> and
  of \<open>str.strip\<close> is the space, the code points 9 to 13 and 28 to 31, the next-line
  character 133 and the no-break space 160; the digits of \<open>\d\<close> are \<open>0\<close> to \<open>9\<close>;
  and only the letters \<open>A\<close> to \<open>Z\<close> match a lower-case letter of a month name when
  case is ignored. CPython compiles the format to the regular expression
  \<^verbatim>\<open>(?P<d>3[0-1]|[1-2]\d|0[1-9]|[1-9]| [1-9])\s+(?P<B>january|...|may)\s+(?P<Y>\d\d\d\d)\<close>,
  matched at the start of the string ignoring case; text left after the match is an
  error, and so is a day the month does not have or the year 0. Each token is followed by
  one that starts with a different class of character, so the first alternative that
  matches is the only one that can.
\<close>

datatype date = Date (year: nat) (month: nat) (day: nat)

definition is_space :: "char \<Rightarrow> bool" where
  "is_space c =
     (let n = (of_char c :: nat)
      in n = 32 \<or> (9 \<le> n \<and> n \<le> 13) \<or> (28 \<le> n \<and> n \<le> 31) \<or> n = 133 \<or> n = 160)"

definition digit_val :: "char \<Rightarrow> nat option" where
  "digit_val c = (let n = (of_char c :: nat) in if 48 \<le> n \<and> n \<le> 57 then Some (n - 48) else None)"

definition lower :: "char \<Rightarrow> char" where
  "lower c = (let n = (of_char c :: nat) in if 65 \<le> n \<and> n \<le> 90 then char_of (n + 32) else c)"

definition day_token :: "string \<Rightarrow> (nat \<times> string) option" where
  "day_token s =
     (case s of
        [] \<Rightarrow> None
      | c1 # r1 \<Rightarrow>
          (case (digit_val c1, r1) of
             (Some d1, c2 # r2) \<Rightarrow>
               (case digit_val c2 of
                  Some d2 \<Rightarrow>
                    if d1 = 3 \<and> d2 \<le> 1 then Some (30 + d2, r2)
                    else if 1 \<le> d1 \<and> d1 \<le> 2 then Some (10 * d1 + d2, r2)
                    else if d1 = 0 \<and> 1 \<le> d2 then Some (d2, r2)
                    else if 1 \<le> d1 then Some (d1, r1)
                    else None
                | None \<Rightarrow> if 1 \<le> d1 then Some (d1, r1) else None)
           | (Some d1, []) \<Rightarrow> if 1 \<le> d1 then Some (d1, []) else None
           | (None, c2 # r2) \<Rightarrow>
               (case digit_val c2 of
                  Some d2 \<Rightarrow> if c1 = CHR '' '' \<and> 1 \<le> d2 then Some (d2, r2) else None
                | None \<Rightarrow> None)
           | (None, []) \<Rightarrow> None))"

definition spaces1 :: "string \<Rightarrow> string option" where
  "spaces1 s =
     (case s of
        [] \<Rightarrow> None
      | c # cs \<Rightarrow> if is_space c then Some (dropWhile is_space cs) else None)"

definition month_names :: "string list" where
  "month_names =
     [''january'', ''february'', ''march'', ''april'', ''may'', ''june'', ''july'',
      ''august'', ''september'', ''october'', ''november'', ''december'']"

fun month_scan :: "nat \<Rightarrow> string list \<Rightarrow> string \<Rightarrow> (nat \<times> string) option" where
  "month_scan i [] s = None"
| "month_scan i (nm # nms) s =
     (if prefix nm (map lower s) then Some (i, drop (length nm) s)
      else month_scan (Suc i) nms s)"

definition month_token :: "string \<Rightarrow> (nat \<times> string) option" where
  "month_token s = month_scan 1 month_names s"

definition year_token :: "string \<Rightarrow> (nat \<times> string) option" where
  "year_token s =
     (case s of
        c1 # c2 # c3 # c4 # r \<Rightarrow>
          (case (digit_val c1, digit_val c2, digit_val c3, digit_val c4) of
             (Some a, Some b, Some c, Some d) \<Rightarrow> Some (1000 * a + 100 * b + 10 * c + d, r)
           | _ \<Rightarrow> None)
      | _ \<Rightarrow> None)"

definition is_leap :: "nat \<Rightarrow> bool" where
  "is_leap y = (y mod 4 = 0 \<and> (y mod 100 \<noteq> 0 \<or> y mod 400 = 0))"

definition days_in_month :: "nat \<Rightarrow> nat \<Rightarrow> nat" where
  "days_in_month y m =
     (if m = 2 then (if is_leap y then 29 else 28)
      else if m = 4 \<or> m = 6 \<or> m = 9 \<or> m = 11 then 30 else 31)"

definition strptime_dBY :: "string \<Rightarrow> error + date" where
  "strptime_dBY s =
     (case day_token s of
        None \<Rightarrow> Inl (ValueError (TimeDataNoMatch s))
      | Some (d, r1) \<Rightarrow>
     (case spaces1 r1 of
        None \<Rightarrow> Inl (ValueError (TimeDataNoMatch s))
      | Some r2 \<Rightarrow>
     (case month_token r2 of
        None \<Rightarrow> Inl (ValueError (TimeDataNoMatch s))
      | Some (m, r3) \<Rightarrow>
     (case spaces1 r3 of
        None \<Rightarrow> Inl (ValueError (TimeDataNoMatch s))
      | Some r4 \<Rightarrow>
     (case year_token r4 of
        None \<Rightarrow> Inl (ValueError (TimeDataNoMatch s))
      | Some (y, r5) \<Rightarrow>
          if r5 \<noteq> [] then Inl (ValueError (UnconvertedData r5))
          else if y < 1 \<or> days_in_month y m < d then Inl (ValueError DateOutOfRange)
          else Inr (Date y m d))))))"

subsection \<open>The data classes and enumerations\<close>

record IndustryCode =
  code :: string
  description :: string

record PreviousCompanyName =
  name :: string
  start_period :: date
  end_period :: date

text \<open>
  An \<open>Enum\<close> class is its members, each with a name and a value. \<open>Cls(v)\<close> is the
  member whose value is \<open>v\<close> and raises \<open>ValueError\<close> when there is none;
  \<open>Cls[n]\<close> is the member named \<open>n\<close> and raises \<open>KeyError\<close> when there is none.
\<close>

datatype CompanyType =
    ASSURANCE_COMPANY
  | CHARITABLE_INCORPORATED_ORGANISATION
  | CONVERTED_CLOSED
  | CREDIT_UNION_NORTHERN_IRELAND
  | EUROPEAN_ECONOMIC_INTEREST_GROUPING
  | EUROPEAN_PUBLIC_LIMITED_LIABILITY_COMPANY
  | FURTHER_EDUCATION_OR_SIXTH_FORM_COLLEGE_CORPORATION
  | INDUSTRIAL_AND_PROVIDENT_SOCIETY
  | INVESTMENT_COMPANY_WITH_VARIABLE_CAPITAL
  | LIMITED_LIABILITY_PARTNERSHIP
  | LIMITED_PARTNERSHIP
  | NORTHERN_IRELAND_COMPANY
  | OLD_PUBLIC_COMPANY
  | OVERSEAS_COMPANY
  | OVERSEAS_ENTITY
  | PRIVATE_LIMITED_BY_GUARANTEE_WITHOUT_SHARE_CAPITAL
  | PRIVATE_LIMITED_COMPANY
  | PRIVATE_LIMITED_COMPANY_BY_GUARANTEE_WITHOUT_SHARE_CAPITAL
  | PRIVATE_LIMITED_COMPANY_EXEMPTION
  | PRIVATE_UNLIMITED_COMPANY
  | PRIVATE_UNLIMITED_COMPANY_WITHOUT_SHARE_CAPITAL
  | PROTECTED_CELL_COMPANY
  | PUBLIC_LIMITED_COMPANY
  | REGISTERED_SOCIETY
  | ROYAL_CHARTER_COMPANY
  | SCOTTISH_CHARITABLE_INCORPORATED_ORGANISATION
  | SCOTTISH_QUALIFYING_PARTNERSHIP
  | UK_ESTABLISHMENT_COMPANY
  | UNREGISTERED_COMPANY

fun CompanyType_value :: "CompanyType \<Rightarrow> string" where
  "CompanyType_value ASSURANCE_COMPANY = ''Assurance company''"
| "CompanyType_value CHARITABLE_INCORPORATED_ORGANISATION = ''Charitable incorporated organisation''"
| "CompanyType_value CONVERTED_CLOSED = ''Converted / closed''"
| "CompanyType_value CREDIT_UNION_NORTHERN_IRELAND = ''Credit union (Northern Ireland)''"
| "CompanyType_value EUROPEAN_ECONOMIC_INTEREST_GROUPING = ''European Economic Interest Grouping (EEIG)''"
| "CompanyType_value EUROPEAN_PUBLIC_LIMITED_LIABILITY_COMPANY = ''European public limited liability company (SE)''"
| "CompanyType_value FURTHER_EDUCATION_OR_SIXTH_FORM_COLLEGE_CORPORATION = ''Further education or sixth form college corporation''"
| "CompanyType_value INDUSTRIAL_AND_PROVIDENT_SOCIETY = ''Industrial and Provident society''"
| "CompanyType_value INVESTMENT_COMPANY_WITH_VARIABLE_CAPITAL = ''Investment company with variable capital''"
| "CompanyType_value LIMITED_LIABILITY_PARTNERSHIP = ''Limited liability partnership''"
| "CompanyType_value LIMITED_PARTNERSHIP = ''Limited partnership''"
| "CompanyType_value NORTHERN_IRELAND_COMPANY = ''Northern Ireland company''"
| "CompanyType_value OLD_PUBLIC_COMPANY = ''Old public company''"
| "CompanyType_value OVERSEAS_COMPANY = ''Overseas company''"
| "CompanyType_value OVERSEAS_ENTITY = ''Overseas entity''"
| "CompanyType_value PRIVATE_LIMITED_BY_GUARANTEE_WITHOUT_SHARE_CAPITAL = ''Private limited by guarantee without share capital''"
| "CompanyType_value PRIVATE_LIMITED_COMPANY = ''Private limited company''"
| "CompanyType_value PRIVATE_LIMITED_COMPANY_BY_GUARANTEE_WITHOUT_SHARE_CAPITAL = ''Private Limited Company by guarantee without share capital, use of 'Limited' exemption''"
| "CompanyType_value PRIVATE_LIMITED_COMPANY_EXEMPTION = ''Private Limited Company, use of 'Limited' exemption''"
| "CompanyType_value PRIVATE_UNLIMITED_COMPANY = ''Private unlimited company''"
| "CompanyType_value PRIVATE_UNLIMITED_COMPANY_WITHOUT_SHARE_CAPITAL = ''Private unlimited company without share capital''"
| "CompanyType_value PROTECTED_CELL_COMPANY = ''Protected cell company''"
| "CompanyType_value PUBLIC_LIMITED_COMPANY = ''Public limited company''"
| "CompanyType_value REGISTERED_SOCIETY = ''Registered society''"
| "CompanyType_value ROYAL_CHARTER_COMPANY = ''Royal charter company''"
| "CompanyType_value SCOTTISH_CHARITABLE_INCORPORATED_ORGANISATION = ''Scottish charitable incorporated organisation''"
| "CompanyType_value SCOTTISH_QUALIFYING_PARTNERSHIP = ''Scottish qualifying partnership''"
| "CompanyType_value UK_ESTABLISHMENT_COMPANY = ''UK establishment company''"
| "CompanyType_value UNREGISTERED_COMPANY = ''Unregistered company''"

fun CompanyType_name :: "CompanyType \<Rightarrow> string" where
  "CompanyType_name ASSURANCE_COMPANY = ''ASSURANCE_COMPANY''"
| "CompanyType_name CHARITABLE_INCORPORATED_ORGANISATION = ''CHARITABLE_INCORPORATED_ORGANISATION''"
| "CompanyType_name CONVERTED_CLOSED = ''CONVERTED_CLOSED''"
| "CompanyType_name CREDIT_UNION_NORTHERN_IRELAND = ''CREDIT_UNION_NORTHERN_IRELAND''"
| "CompanyType_name EUROPEAN_ECONOMIC_INTEREST_GROUPING = ''EUROPEAN_ECONOMIC_INTEREST_GROUPING''"
| "CompanyType_name EUROPEAN_PUBLIC_LIMITED_LIABILITY_COMPANY = ''EUROPEAN_PUBLIC_LIMITED_LIABILITY_COMPANY''"
| "CompanyType_name FURTHER_EDUCATION_OR_SIXTH_FORM_COLLEGE_CORPORATION = ''FURTHER_EDUCATION_OR_SIXTH_FORM_COLLEGE_CORPORATION''"
| "CompanyType_name INDUSTRIAL_AND_PROVIDENT_SOCIETY = ''INDUSTRIAL_AND_PROVIDENT_SOCIETY''"
| "CompanyType_name INVESTMENT_COMPANY_WITH_VARIABLE_CAPITAL = ''INVESTMENT_COMPANY_WITH_VARIABLE_CAPITAL''"
| "CompanyType_name LIMITED_LIABILITY_PARTNERSHIP = ''LIMITED_LIABILITY_PARTNERSHIP''"
| "CompanyType_name LIMITED_PARTNERSHIP = ''LIMITED_PARTNERSHIP''"
| "CompanyType_name NORTHERN_IRELAND_COMPANY = ''NORTHERN_IRELAND_COMPANY''"
| "CompanyType_name OLD_PUBLIC_COMPANY = ''OLD_PUBLIC_COMPANY''"
| "CompanyType_name OVERSEAS_COMPANY = ''OVERSEAS_COMPANY''"
| "CompanyType_name OVERSEAS_ENTITY = ''OVERSEAS_ENTITY''"
| "CompanyType_name PRIVATE_LIMITED_BY_GUARANTEE_WITHOUT_SHARE_CAPITAL = ''PRIVATE_LIMITED_BY_GUARANTEE_WITHOUT_SHARE_CAPITAL''"
| "CompanyType_name PRIVATE_LIMITED_COMPANY = ''PRIVATE_LIMITED_COMPANY''"
| "CompanyType_name PRIVATE_LIMITED_COMPANY_BY_GUARANTEE_WITHOUT_SHARE_CAPITAL = ''PRIVATE_LIMITED_COMPANY_BY_GUARANTEE_WITHOUT_SHARE_CAPITAL''"
| "CompanyType_name PRIVATE_LIMITED_COMPANY_EXEMPTION = ''PRIVATE_LIMITED_COMPANY_EXEMPTION''"
| "CompanyType_name PRIVATE_UNLIMITED_COMPANY = ''PRIVATE_UNLIMITED_COMPANY''"
| "CompanyType_name PRIVATE_UNLIMITED_COMPANY_WITHOUT_SHARE_CAPITAL = ''PRIVATE_UNLIMITED_COMPANY_WITHOUT_SHARE_CAPITAL''"
| "CompanyType_name PROTECTED_CELL_COMPANY = ''PROTECTED_CELL_COMPANY''"
| "CompanyType_name PUBLIC_LIMITED_COMPANY = ''PUBLIC_LIMITED_COMPANY''"
| "CompanyType_name REGISTERED_SOCIETY = ''REGISTERED_SOCIETY''"
| "CompanyType_name ROYAL_CHARTER_COMPANY = ''ROYAL_CHARTER_COMPANY''"
| "CompanyType_name SCOTTISH_CHARITABLE_INCORPORATED_ORGANISATION = ''SCOTTISH_CHARITABLE_INCORPORATED_ORGANISATION''"
| "CompanyType_name SCOTTISH_QUALIFYING_PARTNERSHIP = ''SCOTTISH_QUALIFYING_PARTNERSHIP''"
| "CompanyType_name UK_ESTABLISHMENT_COMPANY = ''UK_ESTABLISHMENT_COMPANY''"
| "CompanyType_name UNREGISTERED_COMPANY = ''UNREGISTERED_COMPANY''"

definition CompanyType_members :: "CompanyType list" where
  "CompanyType_members =
     [ASSURANCE_COMPANY, CHARITABLE_INCORPORATED_ORGANISATION, CONVERTED_CLOSED,
     CREDIT_UNION_NORTHERN_IRELAND, EUROPEAN_ECONOMIC_INTEREST_GROUPING,
     EUROPEAN_PUBLIC_LIMITED_LIABILITY_COMPANY,
     FURTHER_EDUCATION_OR_SIXTH_FORM_COLLEGE_CORPORATION, INDUSTRIAL_AND_PROVIDENT_SOCIETY,
     INVESTMENT_COMPANY_WITH_VARIABLE_CAPITAL, LIMITED_LIABILITY_PARTNERSHIP,
     LIMITED_PARTNERSHIP, NORTHERN_IRELAND_COMPANY, OLD_PUBLIC_COMPANY, OVERSEAS_COMPANY,
     OVERSEAS_ENTITY, PRIVATE_LIMITED_BY_GUARANTEE_WITHOUT_SHARE_CAPITAL,
     PRIVATE_LIMITED_COMPANY, PRIVATE_LIMITED_COMPANY_BY_GUARANTEE_WITHOUT_SHARE_CAPITAL,
     PRIVATE_LIMITED_COMPANY_EXEMPTION, PRIVATE_UNLIMITED_COMPANY,
     PRIVATE_UNLIMITED_COMPANY_WITHOUT_SHARE_CAPITAL, PROTECTED_CELL_COMPANY,
     PUBLIC_LIMITED_COMPANY, REGISTERED_SOCIETY, ROYAL_CHARTER_COMPANY,
     SCOTTISH_CHARITABLE_INCORPORATED_ORGANISATION, SCOTTISH_QUALIFYING_PARTNERSHIP,
     UK_ESTABLISHMENT_COMPANY, UNREGISTERED_COMPANY]"

definition CompanyType_of_value :: "string \<Rightarrow> error + CompanyType" where
  "CompanyType_of_value v =
     (case find (\<lambda>m. CompanyType_value m = v) CompanyType_members of
        None \<Rightarrow> Inl (ValueError (NotAValidEnum v ''CompanyType''))
      | Some m \<Rightarrow> Inr m)"

definition CompanyType_of_name :: "string \<Rightarrow> error + CompanyType" where
  "CompanyType_of_name n =
     (case find (\<lambda>m. CompanyType_name m = n) CompanyType_members of
        None \<Rightarrow> Inl (KeyError n)
      | Some m \<Rightarrow> Inr m)"

datatype CompanySubType =
    COMMUNITY_INTEREST_COMPANY
  | PRIVATE_FUND_LIMITED_PARTNERSHIP

fun CompanySubType_value :: "CompanySubType \<Rightarrow> string" where
  "CompanySubType_value COMMUNITY_INTEREST_COMPANY = ''Community Interest Company (CIC)''"
| "CompanySubType_value PRIVATE_FUND_LIMITED_PARTNERSHIP = ''Private Fund Limited Partnership (PFLP)''"

fun CompanySubType_name :: "CompanySubType \<Rightarrow> string" where
  "CompanySubType_name COMMUNITY_INTEREST_COMPANY = ''COMMUNITY_INTEREST_COMPANY''"
| "CompanySubType_name PRIVATE_FUND_LIMITED_PARTNERSHIP = ''PRIVATE_FUND_LIMITED_PARTNERSHIP''"

definition CompanySubType_members :: "CompanySubType list" where
  "CompanySubType_members =
     [COMMUNITY_INTEREST_COMPANY, PRIVATE_FUND_LIMITED_PARTNERSHIP]"

definition CompanySubType_of_value :: "string \<Rightarrow> error + CompanySubType" where
  "CompanySubType_of_value v =
     (case find (\<lambda>m. CompanySubType_value m = v) CompanySubType_members of
        None \<Rightarrow> Inl (ValueError (NotAValidEnum v ''CompanySubType''))
      | Some m \<Rightarrow> Inr m)"

definition CompanySubType_of_name :: "string \<Rightarrow> error + CompanySubType" where
  "CompanySubType_of_name n =
     (case find (\<lambda>m. CompanySubType_name m = n) CompanySubType_members of
        None \<Rightarrow> Inl (KeyError n)
      | Some m \<Rightarrow> Inr m)"

datatype CompanyStatus =
    ACTIVE
  | DISSOLVED
  | OPEN
  | CLOSED
  | CONVERTED_CLOSED
  | RECEIVERSHIP
  | LIQUIDATION
  | ADMINISTRATION
  | INSOLVENCY_PROCEEDINGS
  | VOLUNTARY_ARRAGEMENT

fun CompanyStatus_value :: "CompanyStatus \<Rightarrow> string" where
  "CompanyStatus_value ACTIVE = ''active''"
| "CompanyStatus_value DISSOLVED = ''dissolved''"
| "CompanyStatus_value OPEN = ''open''"
| "CompanyStatus_value CLOSED = ''closed''"
| "CompanyStatus_value CONVERTED_CLOSED = ''converted-closed''"
| "CompanyStatus_value RECEIVERSHIP = ''receivership''"
| "CompanyStatus_value LIQUIDATION = ''liquidation''"
| "CompanyStatus_value ADMINISTRATION = ''administration''"
| "CompanyStatus_value INSOLVENCY_PROCEEDINGS = ''insolvency-proceedings''"
| "CompanyStatus_value VOLUNTARY_ARRAGEMENT = ''voluntary-arrangement''"

record Company =
  primary_name :: string
  local_registration_number :: string
  registered_office_address :: string
  status :: CompanyStatus
  company_type :: CompanyType
  company_sub_type :: "CompanySubType option"
  incorporation_date :: "date option"
  dissolved_date :: "date option"
  next_statement_date :: "date option"
  last_statement_date :: "date option"
  next_accounts_date :: "date option"
  last_accounts_date :: "date option"
  industry_codes :: "IndustryCode list option"
  previous_company_names :: "PreviousCompanyName list option"

subsection \<open>Parsed pages\<close>

text \<open>
  Fetching a page and parsing it are the work of \<open>requests\<close> and \<open>BeautifulSoup\<close>;
  the model starts from the parsed page. A page is its \<open>tr\<close> elements in document
  order, and a \<open>tr\<close> is what the function reads of it: its classes, the texts of its
  \<open>td\<close> cells (\<open>findAll("td")\<close>), the text of its first \<open>a\<close> of class
  \<open>govuk-link\<close> and the texts of the items of its first \<open>ul\<close> of class
  \<open>govuk-list\<close> (\<open>find\<close> returns \<open>None\<close> when there is no such element).
\<close>

record tr =
  tr_class :: "string list"
  td_texts :: "string list"
  a_text :: "string option"
  ul_items :: "string list option"

type_synonym soup = "tr list"

text \<open>\<open>soup.findAll("tr", attrs={"class": "govuk-table__row"})\<close>.\<close>

definition result_rows :: "soup \<Rightarrow> tr list" where
  "result_rows soup = filter (\<lambda>r. ''govuk-table__row'' \<in> set (tr_class r)) soup"

text \<open>
  \<open>ul_data.select("li:nth-child(k)")[0].text\<close>: \<open>AttributeError\<close> when \<open>ul_data\<close> is
  \<open>None\<close>, \<open>IndexError\<close> when the list has no \<open>k\<close>-th item.
\<close>

definition li_text :: "string list option \<Rightarrow> nat \<Rightarrow> error + string" where
  "li_text ul_data k =
     (case ul_data of
        None \<Rightarrow> Inl AttributeError
      | Some lis \<Rightarrow> py_get (if 1 \<le> k \<and> k \<le> length lis then [lis ! (k - 1)] else []) 0)"

subsection \<open>The table of SIC codes (lines 160 to 166)\<close>

text \<open>
  The loop keeps two lists side by side, the codes and their descriptions. A row with no
  \<open>td\<close> is passed over; of any other row both \<open>td_data[0]\<close> and \<open>td_data[1]\<close> are
  read.
\<close>

fun load_sic :: "string list \<Rightarrow> string list \<Rightarrow> tr list \<Rightarrow> error + (string list \<times> string list)" where
  "load_sic sic_code_list sic_desc_list [] = Inr (sic_code_list, sic_desc_list)"
| "load_sic sic_code_list sic_desc_list (tr_data # rest) =
     (let td_data = td_texts tr_data in
      if td_data \<noteq> [] then
        (case py_get td_data 0 of
           Inl e \<Rightarrow> Inl e
         | Inr c0 \<Rightarrow>
             (case py_get td_data 1 of
                Inl e \<Rightarrow> Inl e
              | Inr c1 \<Rightarrow> load_sic (sic_code_list @ [c0]) (sic_desc_list @ [c1]) rest))
      else load_sic sic_code_list sic_desc_list rest)"

subsection \<open>One result row (lines 170 to 236)\<close>

text \<open>\<open>sic_code_list.index(sic_code)\<close>, called only when the code is in the list.\<close>

fun index_of :: "'a \<Rightarrow> 'a list \<Rightarrow> nat" where
  "index_of x [] = 0"
| "index_of x (y # ys) = (if x = y then 0 else Suc (index_of x ys))"

text \<open>Lines 222 to 225: the description of a code, \<open>""\<close> when the code is not listed.\<close>

definition sic_desc :: "string list \<times> string list \<Rightarrow> string \<Rightarrow> error + string" where
  "sic_desc sic sic_code =
     (if sic_code \<in> set (fst sic) then py_get (snd sic) (index_of sic_code (fst sic))
      else Inr [])"

text \<open>Lines 221 to 228: one \<open>IndustryCode\<close> per token, appended in order.\<close>

fun build_industry_codes ::
  "string list \<times> string list \<Rightarrow> IndustryCode list \<Rightarrow> string list \<Rightarrow> error + IndustryCode list" where
  "build_industry_codes sic acc [] = Inr acc"
| "build_industry_codes sic acc (sic_code # rest) =
     (case sic_desc sic sic_code of
        Inl e \<Rightarrow> Inl e
      | Inr desc \<Rightarrow>
          build_industry_codes sic (acc @ [\<lparr>code = sic_code, description = desc\<rparr>]) rest)"

text \<open>Lines 218 to 232, on the text of the sixth item.\<close>

definition industry_codes_of ::
  "string list \<times> string list \<Rightarrow> string \<Rightarrow> error + IndustryCode list option" where
  "industry_codes_of sic t6 =
     (if t6 \<noteq> [] then
        ebind (py_get (py_split '' - '' t6) 1) (\<lambda>seg.
        ebind (build_industry_codes sic [] (py_split '', '' seg)) (\<lambda>cs.
        Inr (Some cs)))
      else Inr None)"

text \<open>
  Lines 202 to 207 and 209 to 214, the same statements on the third and on the fourth
  item: the date after \<open>" on "\<close>, \<open>None\<close> when the text has no \<open>" on "\<close>.
\<close>

definition date_after_on :: "string \<Rightarrow> error + date option" where
  "date_after_on t =
     (if py_in '' on '' t then
        ebind (py_get (py_split '' on '' t) 1) (\<lambda>d.
        ebind (strptime_dBY d) (\<lambda>dt.
        Inr (Some dt)))
      else Inr None)"

text \<open>Line 184: the registration number of a row.\<close>

definition row_registration_number :: "tr \<Rightarrow> error + string" where
  "row_registration_number tr_data =
     ebind (li_text (ul_items tr_data) 3) (\<lambda>t3.
     py_get (py_split '' - '' t3) 0)"

text \<open>Lines 186 to 190: the condition under which a row is parsed and appended.\<close>

definition row_selected :: "string option \<Rightarrow> string \<Rightarrow> bool" where
  "row_selected registration_number lrn =
     ((registration_number \<noteq> None \<and> py_in (the registration_number) lrn)
      \<or> registration_number = None)"

text \<open>Lines 193 to 194 and 197 to 198: the member by its value, then by its name.\<close>

definition company_type_of :: "string \<Rightarrow> error + CompanyType" where
  "company_type_of t =
     ebind (CompanyType_of_value t) (\<lambda>m. CompanyType_of_name (CompanyType_name m))"

definition company_sub_type_of :: "string \<Rightarrow> error + CompanySubType option" where
  "company_sub_type_of t =
     (if t \<noteq> [] then
        ebind (CompanySubType_of_value t) (\<lambda>m.
        ebind (CompanySubType_of_name (CompanySubType_name m)) (\<lambda>m'.
        Inr (Some m')))
      else Inr None)"

text \<open>
  The body of the loop over the result rows. The result is \<open>Inr None\<close> for a row that
  is passed over, \<open>Inr (Some c)\<close> for a row whose company \<open>c\<close> is appended.
\<close>

definition extract_row ::
  "string option \<Rightarrow> CompanyStatus \<Rightarrow> string list \<times> string list \<Rightarrow> tr \<Rightarrow> error + Company option" where
  "extract_row registration_number st sic tr_data =
     ebind (row_registration_number tr_data) (\<lambda>lrn.
     if row_selected registration_number lrn then
       ebind (case a_text tr_data of None \<Rightarrow> Inl AttributeError | Some t \<Rightarrow> Inr t) (\<lambda>a.
       ebind (py_get (py_split ''('' a) 0) (\<lambda>pn.
       ebind (li_text (ul_items tr_data) 1) (\<lambda>t1.
       ebind (company_type_of t1) (\<lambda>ct.
       ebind (li_text (ul_items tr_data) 2) (\<lambda>t2.
       ebind (company_sub_type_of t2) (\<lambda>cst.
       ebind (li_text (ul_items tr_data) 3) (\<lambda>t3.
       ebind (date_after_on t3) (\<lambda>inc.
       ebind (li_text (ul_items tr_data) 4) (\<lambda>t4.
       ebind (date_after_on t4) (\<lambda>dis.
       ebind (li_text (ul_items tr_data) 5) (\<lambda>addr.
       ebind (li_text (ul_items tr_data) 6) (\<lambda>t6.
       ebind (industry_codes_of sic t6) (\<lambda>ics.
       Inr (Some \<lparr>primary_name = pn, local_registration_number = lrn,
                  registered_office_address = addr, status = st, company_type = ct,
                  company_sub_type = cst, incorporation_date = inc, dissolved_date = dis,
                  next_statement_date = None, last_statement_date = None,
                  next_accounts_date = None, last_accounts_date = None,
                  industry_codes = ics, previous_company_names = None\<rparr>))))))))))))))
     else Inr None)"

subsection \<open>The loop over the result rows and the whole function\<close>

fun extract_rows ::
  "string option \<Rightarrow> CompanyStatus \<Rightarrow> string list \<times> string list \<Rightarrow> Company list \<Rightarrow> tr list
     \<Rightarrow> error + Company list" where
  "extract_rows registration_number st sic companies [] = Inr companies"
| "extract_rows registration_number st sic companies (tr_data # rest) =
     (case extract_row registration_number st sic tr_data of
        Inl e \<Rightarrow> Inl e
      | Inr None \<Rightarrow> extract_rows registration_number st sic companies rest
      | Inr (Some c) \<Rightarrow> extract_rows registration_number st sic (companies @ [c]) rest)"

text \<open>
  An argument with a default: left out of the call, or passed. \<open>status\<close> is declared
  \<open>Optional[CompanyStatus]\<close>, so the value passed may be \<open>None\<close>.
\<close>

datatype 'a arg = Omitted | Passed 'a

definition search_url :: string where
  "search_url = ''https://find-and-update.company-information.service.gov.uk/advanced-search/get-results?companyNameIncludes=''"

definition sic_url :: string where
  "sic_url = ''https://resources.companieshouse.gov.uk/sic/''"

text \<open>
  Lines 160 to 238: the work on the two parsed pages, \<open>soup\<close> with the search
  results and \<open>soup1\<close> with the SIC codes. The table of codes is read first.
\<close>

definition search_in_pages ::
  "string option \<Rightarrow> CompanyStatus \<Rightarrow> soup \<Rightarrow> soup \<Rightarrow> error + Company list" where
  "search_in_pages registration_number st soup soup1 =
     ebind (load_sic [] [] soup1) (\<lambda>sic.
     extract_rows registration_number st sic [] (result_rows soup))"

text \<open>
  \<open>search_companies\<close>, lines 132 to 238. \<open>web\<close> is the parsed page behind each URL.
  The URL is completed with \<open>status.value\<close> before either page is fetched, which is an
  \<open>AttributeError\<close> when \<open>status\<close> is \<open>None\<close>.
\<close>

definition search_companies ::
  "(string \<Rightarrow> soup) \<Rightarrow> string option \<Rightarrow> string option \<Rightarrow> CompanyStatus option arg
     \<Rightarrow> error + Company list" where
  "search_companies web name_arg registration_number status_arg =
     (let st_opt = (case status_arg of Omitted \<Rightarrow> Some ACTIVE | Passed s \<Rightarrow> s);
          url = search_url;
          url = (case name_arg of
                   None \<Rightarrow> url
                 | Some n \<Rightarrow> if n \<noteq> [] then url @ replace_space_plus n else url)
      in case st_opt of
           None \<Rightarrow> Inl AttributeError
         | Some st \<Rightarrow>
             (let url = url @ ''&status='' @ CompanyStatus_value st;
                  soup = web url;
                  soup1 = web sic_url
              in search_in_pages registration_number st soup soup1))"

subsection \<open>What the lists of SIC codes mean, and which rows the filter keeps\<close>

text \<open>
  The two lists read as a mapping from code to description: \<open>index\<close> finds the first
  position of a code, so the first row of a code is the one that counts.
\<close>

definition sic_mapping :: "string list \<times> string list \<Rightarrow> string \<Rightarrow> string option" where
  "sic_mapping sic = map_of (zip (fst sic) (snd sic))"

definition sic_description :: "string list \<times> string list \<Rightarrow> string \<Rightarrow> string" where
  "sic_description sic c = (case sic_mapping sic c of None \<Rightarrow> [] | Some d \<Rightarrow> d)"

text \<open>
  The rows a \<open>registration_number\<close> argument lets through. A row whose third item
  cannot be read raises before the filter is reached, with or without the argument.
\<close>

definition row_kept :: "string \<Rightarrow> tr \<Rightarrow> bool" where
  "row_kept rn r =
     (case row_registration_number r of Inl e \<Rightarrow> True | Inr lrn \<Rightarrow> py_in rn lrn)"

subsection \<open>A page to run the function on\<close>

text \<open>
  The row that the comment in the loop shows (lines 173 to 182), under a link whose text
  ends in a parenthesis, and a table with its two SIC codes.
\<close>

definition example_items :: "string list" where
  "example_items =
     [''Private limited by guarantee without share capital'',
      ''Community Interest Company (CIC)'',
      ''07850377 - Incorporated on 16 November 2011'',
      ''Dissolved on 11 September 2018'',
      ''12 New Street, Huddersfield, England HD1 2AR'',
      ''SIC codes - 78109, 88100'']"

definition example_row :: tr where
  "example_row =
     \<lparr>tr_class = [''govuk-table__row''], td_texts = [],
      a_text = Some ''Foo Ltd (dissolved)'', ul_items = Some example_items\<rparr>"

definition example_sic :: "string list \<times> string list" where
  "example_sic =
     ([''78109'', ''88100''],
      [''Other activities of employment placement agencies'',
       ''Social work activities without accommodation for the elderly and disabled''])"

definition example_company :: Company where
  "example_company =
     \<lparr>primary_name = ''Foo Ltd '', local_registration_number = ''07850377'',
      registered_office_address = ''12 New Street, Huddersfield, England HD1 2AR'',
      status = ACTIVE,
      company_type = PRIVATE_LIMITED_BY_GUARANTEE_WITHOUT_SHARE_CAPITAL,
      company_sub_type = Some COMMUNITY_INTEREST_COMPANY,
      incorporation_date = Some (Date 2011 11 16),
      dissolved_date = Some (Date 2018 9 11),
      next_statement_date = None, last_statement_date = None,
      next_accounts_date = None, last_accounts_date = None,
      industry_codes =
        Some [\<lparr>code = ''78109'',
                description = ''Other activities of employment placement agencies''\<rparr>,
              \<lparr>code = ''88100'',
                description = ''Social work activities without accommodation for the elderly and disabled''\<rparr>],
      previous_company_names = None\<rparr>"

text \<open>
  The page of SIC codes behind that table, with a header row without cells; a web that
  serves the two pages; and the example row with a company type, and with a sub-type,
  that the enumerations do not have.
\<close>

definition example_sic_page :: soup where
  "example_sic_page =
     [\<lparr>tr_class = [], td_texts = [], a_text = None, ul_items = None\<rparr>,
      \<lparr>tr_class = [], td_texts = [''78109'', ''Other activities of employment placement agencies''],
       a_text = None, ul_items = None\<rparr>,
      \<lparr>tr_class = [],
       td_texts = [''88100'', ''Social work activities without accommodation for the elderly and disabled''],
       a_text = None, ul_items = None\<rparr>]"

definition example_web :: "string \<Rightarrow> soup" where
  "example_web url = (if url = sic_url then example_sic_page else [example_row])"

definition unknown_type_row :: tr where
  "unknown_type_row = example_row\<lparr>ul_items := Some (example_items[0 := ''Charity''])\<rparr>"

definition unknown_sub_type_row :: tr where
  "unknown_sub_type_row = example_row\<lparr>ul_items := Some (example_items[1 := ''Co-operative''])\<rparr>"

text \<open>
  Four more rows: one of an unknown company type whose registration number does not
  contain \<open>078\<close>; one whose link text starts with \<open>(\<close> and whose third item starts
  with \<open>" - "\<close>; the example row with a second \<open>" - "\<close> in its sixth item; and a
  row of the SIC table with a single cell.
\<close>

definition unselected_row :: tr where
  "unselected_row =
     \<lparr>tr_class = [''govuk-table__row''], td_texts = [], a_text = Some ''Bar Ltd'',
      ul_items = Some [''Charity'', [], ''070001 - Incorporated on 1 May 2020'', [],
                       ''1 High Street'', []]\<rparr>"

definition nameless_row :: tr where
  "nameless_row =
     \<lparr>tr_class = [''govuk-table__row''], td_texts = [], a_text = Some ''(dissolved)'',
      ul_items = Some [''Private limited company'', [], '' - Incorporated on 1 May 2020'', [],
                       ''1 High Street'', []]\<rparr>"

definition two_dash_row :: tr where
  "two_dash_row = example_row\<lparr>ul_items := Some (example_items[5 := ''SIC codes - 78109 - 88100''])\<rparr>"

definition one_cell_row :: tr where
  "one_cell_row = \<lparr>tr_class = [], td_texts = [''01110''], a_text = None, ul_items = None\<rparr>"

text \<open>
  The row of an unknown company type without its link, and the name of the Python class of
  an exception: what an \<open>except\<close> clause can tell exceptions apart by.
\<close>

definition linkless_row :: tr where
  "linkless_row = unknown_type_row\<lparr>a_text := None\<rparr>"

definition exception_class :: "error \<Rightarrow> string" where
  "exception_class e =
     (case e of
        AttributeError \<Rightarrow> ''AttributeError''
      | IndexError \<Rightarrow> ''IndexError''
      | KeyError k \<Rightarrow> ''KeyError''
      | ValueError v \<Rightarrow> ''ValueError'')"

subsection \<open>The specification's wording, where it differs from the code\<close>

text \<open>
  \<open>s.strip()\<close>, and the primary name as the specification words it: the link text
  before the first \<open>(\<close>, trimmed.
\<close>

definition py_strip :: "string \<Rightarrow> string" where
  "py_strip s = rev (dropWhile is_space (rev (dropWhile is_space s)))"

definition spec_primary_name :: "string \<Rightarrow> string" where
  "spec_primary_name a = py_strip (takeWhile (\<lambda>ch. ch \<noteq> CHR ''('') a)"

text \<open>
  The filter as the specification words it: the row is parsed in full, and the filter is
  applied when the company is about to be appended.
\<close>

definition spec_extract_row ::
  "string option \<Rightarrow> CompanyStatus \<Rightarrow> string list \<times> string list \<Rightarrow> tr \<Rightarrow> error + Company option" where
  "spec_extract_row registration_number st sic tr_data =
     ebind (extract_row None st sic tr_data) (\<lambda>parsed.
     case parsed of
       None \<Rightarrow> Inr None
     | Some c \<Rightarrow>
         if row_selected registration_number (local_registration_number c) then Inr (Some c)
         else Inr None)"

text \<open>
  The industry codes as the specification words them: the text after the first
  \<open>" - "\<close>, all of it, split on \<open>", "\<close>. The specification does not say what the
  text after the first \<open>" - "\<close> is when there is none; it is taken to be empty.
\<close>

definition text_after_first :: "string \<Rightarrow> string \<Rightarrow> string" where
  "text_after_first sep s = (case find_sep sep s of None \<Rightarrow> [] | Some (b, a) \<Rightarrow> a)"

definition spec_industry_codes ::
  "string list \<times> string list \<Rightarrow> string \<Rightarrow> IndustryCode list option" where
  "spec_industry_codes sic t6 =
     (if t6 \<noteq> [] then
        Some (map (\<lambda>tok. \<lparr>code = tok, description = sic_description sic tok\<rparr>)
                (py_split '', '' (text_after_first '' - '' t6)))
      else None)"

section \<open>Properties\<close>

subsection \<open>The primitives\<close>

lemma ebind_Inl [simp]: "ebind (Inl e) f = Inl e"
  by (simp add: ebind_def)

lemma ebind_Inr [simp]: "ebind (Inr x) f = f x"
  by (simp add: ebind_def)

lemma ebind_eq_Inr: "ebind m f = Inr y \<longleftrightarrow> (\<exists>x. m = Inr x \<and> f x = Inr y)"
  by (cases m) simp_all

lemma map_sum_ebind: "map_sum id g (ebind m f) = ebind m (\<lambda>x. map_sum id g (f x))"
  by (cases m) simp_all

lemma py_in_iff: "py_in sub s \<longleftrightarrow> (\<exists>p q. s = p @ sub @ q)"
proof (induction s)
  case Nil
  then show ?case by auto
next
  case (Cons c cs)
  show ?case
  proof
    assume "py_in sub (c # cs)"
    then consider "prefix sub (c # cs)" | "py_in sub cs" by auto
    then show "\<exists>p q. c # cs = p @ sub @ q"
    proof cases
      case 1
      then obtain q where "c # cs = sub @ q" by (auto simp: prefix_def)
      then have "c # cs = [] @ sub @ q" by simp
      then show ?thesis by blast
    next
      case 2
      with Cons.IH obtain p q where "cs = p @ sub @ q" by blast
      then have "c # cs = (c # p) @ sub @ q" by simp
      then show ?thesis by blast
    qed
  next
    assume "\<exists>p q. c # cs = p @ sub @ q"
    then obtain p q where pq: "c # cs = p @ sub @ q" by blast
    show "py_in sub (c # cs)"
    proof (cases p)
      case Nil
      with pq have "prefix sub (c # cs)" by (simp add: prefix_def)
      then show ?thesis by simp
    next
      case (Cons a p')
      with pq have "cs = p' @ sub @ q" by simp
      with Cons.IH have "py_in sub cs" by blast
      then show ?thesis by simp
    qed
  qed
qed

lemma py_split_nonempty: "py_split sep s \<noteq> []"
  by (subst py_split.simps) (simp split: option.splits prod.splits)

lemma py_get_split_0: "py_get (py_split sep s) 0 = Inr (hd (py_split sep s))"
  using py_split_nonempty [of sep s] by (cases "py_split sep s") (simp_all add: py_get_def)

lemma find_sep_char:
  "find_sep [c] s =
     (if c \<in> set s then Some (takeWhile (\<lambda>x. x \<noteq> c) s, tl (dropWhile (\<lambda>x. x \<noteq> c) s)) else None)"
  by (induction s) auto

lemma hd_py_split_char: "hd (py_split [c] s) = takeWhile (\<lambda>x. x \<noteq> c) s"
proof (cases "c \<in> set s")
  case True
  then show ?thesis by (subst py_split.simps) (simp add: find_sep_char)
next
  case False
  then have a: "py_split [c] s = [s]"
    by (subst py_split.simps) (simp add: find_sep_char)
  from False have b: "takeWhile (\<lambda>x. x \<noteq> c) s = s"
    by auto
  show ?thesis unfolding a b by simp
qed

lemma extract_row_SomeD:
  assumes "extract_row rn st sic r = Inr (Some c)"
  shows "\<exists>lrn a pn t1 ct t2 cst t3 inc t4 dis addr t6 ics.
    row_registration_number r = Inr lrn \<and> row_selected rn lrn \<and>
    a_text r = Some a \<and> py_get (py_split ''('' a) 0 = Inr pn \<and>
    li_text (ul_items r) 1 = Inr t1 \<and> company_type_of t1 = Inr ct \<and>
    li_text (ul_items r) 2 = Inr t2 \<and> company_sub_type_of t2 = Inr cst \<and>
    li_text (ul_items r) 3 = Inr t3 \<and> date_after_on t3 = Inr inc \<and>
    li_text (ul_items r) 4 = Inr t4 \<and> date_after_on t4 = Inr dis \<and>
    li_text (ul_items r) 5 = Inr addr \<and>
    li_text (ul_items r) 6 = Inr t6 \<and> industry_codes_of sic t6 = Inr ics \<and>
    c = \<lparr>primary_name = pn, local_registration_number = lrn,
                  registered_office_address = addr, status = st, company_type = ct,
                  company_sub_type = cst, incorporation_date = inc, dissolved_date = dis,
                  next_statement_date = None, last_statement_date = None,
                  next_accounts_date = None, last_accounts_date = None,
                  industry_codes = ics, previous_company_names = None\<rparr>"
  using assms unfolding extract_row_def
  by (auto simp: ebind_eq_Inr split: if_splits option.splits)

lemma extract_row_status:
  "extract_row rn st' sic r =
     map_sum id (map_option (\<lambda>c. c\<lparr>status := st'\<rparr>)) (extract_row rn st sic r)"
proof (cases "row_registration_number r")
  case (Inl e)
  then show ?thesis by (simp add: extract_row_def)
next
  case (Inr lrn)
  then show ?thesis
    by (cases "row_selected rn lrn") (simp_all add: extract_row_def map_sum_ebind)
qed

lemma extract_rows_status:
  "extract_rows rn st' sic (map (\<lambda>c. c\<lparr>status := st'\<rparr>) acc) rows =
     map_sum id (map (\<lambda>c. c\<lparr>status := st'\<rparr>)) (extract_rows rn st sic acc rows)"
proof (induction rows arbitrary: acc)
  case Nil
  then show ?case by simp
next
  case (Cons r rows)
  show ?case
  proof (cases "extract_row rn st sic r")
    case (Inl e)
    then show ?thesis by (simp add: extract_row_status [of rn st' sic r st])
  next
    case (Inr oc)
    show ?thesis
    proof (cases oc)
      case None
      with Inr Cons.IH [of acc] show ?thesis
        by (simp add: extract_row_status [of rn st' sic r st])
    next
      case (Some c)
      with Inr Cons.IH [of "acc @ [c]"] show ?thesis
        by (simp add: extract_row_status [of rn st' sic r st])
    qed
  qed
qed

lemma extract_rows_from_rows:
  "extract_rows rn st sic acc rows = Inr cs \<Longrightarrow>
     \<exists>new. cs = acc @ new \<and> (\<forall>c\<in>set new. \<exists>r\<in>set rows. extract_row rn st sic r = Inr (Some c))"
proof (induction rows arbitrary: acc)
  case Nil
  then show ?case by simp
next
  case (Cons r rows)
  show ?case
  proof (cases "extract_row rn st sic r")
    case (Inl e)
    with Cons.prems show ?thesis by simp
  next
    case (Inr oc)
    show ?thesis
    proof (cases oc)
      case None
      with Inr Cons.prems have "extract_rows rn st sic acc rows = Inr cs" by simp
      from Cons.IH [OF this] show ?thesis by auto
    next
      case (Some c)
      with Inr Cons.prems have "extract_rows rn st sic (acc @ [c]) rows = Inr cs" by simp
      from Cons.IH [OF this] obtain new where
        new: "cs = (acc @ [c]) @ new"
          "\<forall>c\<in>set new. \<exists>r\<in>set rows. extract_row rn st sic r = Inr (Some c)" by blast
      have "cs = acc @ (c # new)" using new(1) by simp
      moreover have "\<forall>c'\<in>set (c # new). \<exists>r'\<in>set (r # rows). extract_row rn st sic r' = Inr (Some c')"
        using new(2) Inr Some by auto
      ultimately show ?thesis by blast
    qed
  qed
qed

lemma set_CompanyType_members: "set CompanyType_members = UNIV"
proof -
  have "m \<in> set CompanyType_members" for m
    by (cases m) (simp_all add: CompanyType_members_def)
  then show ?thesis by auto
qed

lemma set_CompanySubType_members: "set CompanySubType_members = UNIV"
proof -
  have "m \<in> set CompanySubType_members" for m
    by (cases m) (simp_all add: CompanySubType_members_def)
  then show ?thesis by auto
qed

lemma CompanyType_of_name_name: "CompanyType_of_name (CompanyType_name m) = Inr m"
  by (cases m) (simp_all add: CompanyType_of_name_def CompanyType_members_def)

lemma CompanySubType_of_name_name: "CompanySubType_of_name (CompanySubType_name m) = Inr m"
  by (cases m) (simp_all add: CompanySubType_of_name_def CompanySubType_members_def)

lemma company_type_of_unknown:
  assumes "\<forall>m. CompanyType_value m \<noteq> t"
  shows "company_type_of t = Inl (ValueError (NotAValidEnum t ''CompanyType''))"
proof -
  have "find (\<lambda>m. CompanyType_value m = t) CompanyType_members = None"
    using assms by (simp add: find_None_iff)
  then show ?thesis by (simp add: company_type_of_def CompanyType_of_value_def)
qed

lemma company_type_of_known:
  "company_type_of t = Inr m \<longleftrightarrow> (\<exists>m'. find (\<lambda>m. CompanyType_value m = t) CompanyType_members = Some m' \<and> m' = m)"
  by (auto simp: company_type_of_def CompanyType_of_value_def CompanyType_of_name_name split: option.splits)

lemma company_type_of_value: "company_type_of t = Inr m \<Longrightarrow> CompanyType_value m = t"
  by (auto simp: company_type_of_known find_Some_iff)

lemma company_sub_type_of_unknown:
  assumes "t \<noteq> []" "\<forall>m. CompanySubType_value m \<noteq> t"
  shows "company_sub_type_of t = Inl (ValueError (NotAValidEnum t ''CompanySubType''))"
proof -
  have "find (\<lambda>m. CompanySubType_value m = t) CompanySubType_members = None"
    using assms by (simp add: find_None_iff)
  with assms(1) show ?thesis by (simp add: company_sub_type_of_def CompanySubType_of_value_def)
qed

lemma find_sep_None_iff: "find_sep sep s = None \<longleftrightarrow> \<not> py_in sep s"
  by (induction s) (auto split: option.splits)

lemma find_sep_Some: "find_sep sep s = Some (b, a) \<Longrightarrow> s = b @ sep @ a"
proof (induction s arbitrary: b)
  case Nil
  then show ?case by (simp split: if_splits)
next
  case (Cons c cs)
  show ?case
  proof (cases "prefix sep (c # cs)")
    case True
    with Cons.prems have ba: "b = []" "a = drop (length sep) (c # cs)" by simp_all
    from True obtain q where q: "c # cs = sep @ q" by (auto simp: prefix_def)
    from ba(2) have "a = q" unfolding q by simp
    with ba(1) q show ?thesis by simp
  next
    case False
    with Cons.prems obtain b' where b': "find_sep sep cs = Some (b', a)" "b = c # b'"
      by (auto split: option.splits)
    from Cons.IH [OF b'(1)] b'(2) show ?thesis by simp
  qed
qed

lemma find_sep_Nil_iff: "sep \<noteq> [] \<Longrightarrow> (\<exists>a. find_sep sep s = Some ([], a)) \<longleftrightarrow> prefix sep s"
  by (cases s) (auto split: option.splits)

lemma hd_py_split:
  "sep \<noteq> [] \<Longrightarrow>
     hd (py_split sep s) = (case find_sep sep s of None \<Rightarrow> s | Some (b, a) \<Rightarrow> b)"
  by (subst py_split.simps) (simp split: option.splits)

lemma hd_py_split_Nil_iff:
  assumes "sep \<noteq> []"
  shows "hd (py_split sep s) = [] \<longleftrightarrow> s = [] \<or> prefix sep s"
proof (cases "find_sep sep s")
  case None
  then have "\<not> py_in sep s" by (simp add: find_sep_None_iff)
  then have "\<not> prefix sep s" by (cases s) (use assms in auto)
  with None assms show ?thesis by (simp add: hd_py_split)
next
  case (Some ba)
  obtain b a where ba: "ba = (b, a)" by (cases ba)
  from Some ba assms have "s \<noteq> []" by (cases s) auto
  moreover have "b = [] \<longleftrightarrow> prefix sep s"
    using find_sep_Nil_iff [OF assms, of s] Some ba by auto
  ultimately show ?thesis using Some ba assms by (simp add: hd_py_split)
qed

lemma py_get_split_1:
  "sep \<noteq> [] \<Longrightarrow>
     py_get (py_split sep s) 1 =
       (case find_sep sep s of
          None \<Rightarrow> Inl IndexError
        | Some (b, a) \<Rightarrow> Inr (hd (py_split sep a)))"
proof (cases "find_sep sep s")
  case None
  assume "sep \<noteq> []"
  with None have "py_split sep s = [s]" by (subst py_split.simps) simp
  with None show ?thesis by (simp add: py_get_def)
next
  case (Some ba)
  assume sep: "sep \<noteq> []"
  obtain b a where ba: "ba = (b, a)" by (cases ba)
  with Some sep have "py_split sep s = b # py_split sep a" by (subst py_split.simps) simp
  with Some ba py_split_nonempty [of sep a] show ?thesis
    by (cases "py_split sep a") (simp_all add: py_get_def)
qed

lemma load_sic_length:
  "load_sic cs ds rows = Inr (cs', ds') \<Longrightarrow> length cs = length ds \<Longrightarrow> length cs' = length ds'"
proof (induction rows arbitrary: cs ds)
  case Nil
  then show ?case by simp
next
  case (Cons r rows)
  show ?case
  proof (cases "td_texts r")
    case Nil
    with Cons.prems have "load_sic cs ds rows = Inr (cs', ds')" by simp
    from Cons.IH [OF this Cons.prems(2)] show ?thesis .
  next
    case (Cons c0 tds)
    note td = this
    show ?thesis
    proof (cases tds)
      case Nil
      with td Cons.prems show ?thesis by (simp add: py_get_def)
    next
      case (Cons c1 tds')
      with td Cons.prems(1) have "load_sic (cs @ [c0]) (ds @ [c1]) rows = Inr (cs', ds')"
        by (simp add: py_get_def)
      moreover have "length (cs @ [c0]) = length (ds @ [c1])" using Cons.prems(2) by simp
      ultimately show ?thesis by (rule Cons.IH)
    qed
  qed
qed

lemma index_of_less: "x \<in> set xs \<Longrightarrow> index_of x xs < length xs"
  by (induction xs) auto

lemma map_of_zip_index_of:
  "x \<in> set xs \<Longrightarrow> length xs = length ys \<Longrightarrow> map_of (zip xs ys) x = Some (ys ! index_of x xs)"
proof (induction xs arbitrary: ys)
  case Nil
  then show ?case by simp
next
  case (Cons a xs)
  then obtain y ys' where ys: "ys = y # ys'" by (cases ys) auto
  with Cons show ?case by auto
qed

lemma sic_desc_eq:
  assumes "length (fst sic) = length (snd sic)"
  shows "sic_desc sic c = Inr (sic_description sic c)"
proof (cases "c \<in> set (fst sic)")
  case True
  then have "index_of c (fst sic) < length (fst sic)" by (rule index_of_less)
  with assms have "index_of c (fst sic) < length (snd sic)" by simp
  moreover have "sic_mapping sic c = Some (snd sic ! index_of c (fst sic))"
    unfolding sic_mapping_def using True assms by (rule map_of_zip_index_of)
  ultimately show ?thesis using True by (simp add: sic_desc_def sic_description_def py_get_def)
next
  case False
  with assms have "sic_mapping sic c = None"
    by (simp add: sic_mapping_def)
  with False show ?thesis by (simp add: sic_desc_def sic_description_def)
qed

lemma build_industry_codes_eq:
  assumes "length (fst sic) = length (snd sic)"
  shows "build_industry_codes sic acc toks =
           Inr (acc @ map (\<lambda>tok. \<lparr>code = tok, description = sic_description sic tok\<rparr>) toks)"
  by (induction toks arbitrary: acc) (simp_all add: sic_desc_eq [OF assms])

lemma extract_row_filtered_out:
  "row_registration_number r = Inr lrn \<Longrightarrow> \<not> py_in rn lrn \<Longrightarrow>
     extract_row (Some rn) st sic r = Inr None"
  by (simp add: extract_row_def row_selected_def)

lemma extract_row_filter_passed:
  "row_registration_number r = Inr lrn \<Longrightarrow> py_in rn lrn \<Longrightarrow>
     extract_row (Some rn) st sic r = extract_row None st sic r"
  by (simp add: extract_row_def row_selected_def)

lemma extract_row_unreadable:
  "row_registration_number r = Inl e \<Longrightarrow> extract_row rn st sic r = Inl e"
  by (simp add: extract_row_def)

lemma extract_rows_filter:
  "extract_rows (Some rn) st sic acc rows =
     extract_rows None st sic acc (filter (row_kept rn) rows)"
proof (induction rows arbitrary: acc)
  case Nil
  then show ?case by simp
next
  case (Cons r rows)
  show ?case
  proof (cases "row_registration_number r")
    case (Inl e)
    then show ?thesis by (simp add: row_kept_def extract_row_unreadable)
  next
    case (Inr lrn)
    show ?thesis
    proof (cases "py_in rn lrn")
      case True
      with Inr have "row_kept rn r" by (simp add: row_kept_def)
      moreover note extract_row_filter_passed [OF Inr True, of st sic]
      ultimately show ?thesis using Cons.IH
        by (simp split: sum.splits option.splits)
    next
      case False
      with Inr have "\<not> row_kept rn r" by (simp add: row_kept_def)
      moreover note extract_row_filtered_out [OF Inr False, of st sic]
      ultimately show ?thesis using Cons.IH by simp
    qed
  qed
qed

subsection \<open>The example row\<close>

lemma example_row_extracted:
  "extract_row None ACTIVE example_sic example_row = Inr (Some example_company)"
  by code_simp

lemma example_row_item3:
  "li_text (ul_items example_row) 3 = Inr ''07850377 - Incorporated on 16 November 2011''"
  by code_simp

lemma date_after_on_incorporated:
  "date_after_on ''07850377 - Incorporated on 16 November 2011'' = Inr (Some (Date 2011 11 16))"
  by code_simp

lemma registration_number_of_example_text:
  "py_get (py_split '' - '' ''07850377 - Incorporated on 16 November 2011'') 0 = Inr ''07850377''"
  by code_simp

subsection \<open>Dates, statuses and pages\<close>

lemma date_after_on_dissolved:
  "date_after_on ''Dissolved on 11 September 2018'' = Inr (Some (Date 2018 9 11))"
  by code_simp

lemma date_after_on_absent: "\<not> py_in '' on '' t \<Longrightarrow> date_after_on t = Inr None"
  by (simp add: date_after_on_def)

lemma date_after_on_present:
  assumes "py_in '' on '' t"
  shows "\<exists>b a. find_sep '' on '' t = Some (b, a) \<and> t = b @ '' on '' @ a \<and>
               date_after_on t = map_sum id Some (strptime_dBY (hd (py_split '' on '' a)))"
proof -
  from assms obtain b a where ba: "find_sep '' on '' t = Some (b, a)"
    using find_sep_None_iff [of "'' on ''" t] by (cases "find_sep '' on '' t") auto
  have "py_get (py_split '' on '' t) 1 = Inr (hd (py_split '' on '' a))"
    using ba py_get_split_1 [of "'' on ''" t] by simp
  with assms have "date_after_on t = map_sum id Some (strptime_dBY (hd (py_split '' on '' a)))"
    by (cases "strptime_dBY (hd (py_split '' on '' a))") (simp_all add: date_after_on_def)
  with ba find_sep_Some [OF ba] show ?thesis by blast
qed

lemma extract_rows_status_field:
  assumes "extract_rows rn st sic [] rows = Inr cs"
  shows "\<forall>c\<in>set cs. status c = st"
proof
  fix c assume "c \<in> set cs"
  with extract_rows_from_rows [OF assms] obtain r where
    "extract_row rn st sic r = Inr (Some c)" by auto
  from extract_row_SomeD [OF this] show "status c = st" by auto
qed

lemma search_in_pages_status_field:
  assumes "search_in_pages rn st soup soup1 = Inr cs"
  shows "\<forall>c\<in>set cs. status c = st"
proof -
  from assms obtain sic where "extract_rows rn st sic [] (result_rows soup) = Inr cs"
    by (auto simp: search_in_pages_def ebind_eq_Inr)
  then show ?thesis by (rule extract_rows_status_field)
qed

lemma search_in_pages_status:
  "search_in_pages rn st' soup soup1 =
     map_sum id (map (\<lambda>c. c\<lparr>status := st'\<rparr>)) (search_in_pages rn st soup soup1)"
  unfolding search_in_pages_def
  using extract_rows_status [of rn st' _ "[]" "result_rows soup" st]
  by (simp add: map_sum_ebind)

lemma search_companies_pages:
  assumes "search_companies web name_arg rn status_arg = Inr cs"
  shows "\<exists>st url. (case status_arg of Omitted \<Rightarrow> Some ACTIVE | Passed s \<Rightarrow> s) = Some st \<and>
                  search_in_pages rn st (web url) (web sic_url) = Inr cs"
  using assms unfolding search_companies_def Let_def
  by (auto split: option.splits arg.splits)

lemma example_search_default:
  "search_companies example_web (Some ''Foo Ltd'') None Omitted = Inr [example_company]"
  by code_simp

lemma example_search_in_pages:
  "search_in_pages None ACTIVE [example_row] example_sic_page = Inr [example_company]"
  by code_simp

subsection \<open>Enumerations, the filter, names and SIC codes\<close>

lemma company_type_of_total:
  assumes "\<exists>m. CompanyType_value m = t"
  shows "\<exists>ct. company_type_of t = Inr ct"
proof -
  from assms have "find (\<lambda>m. CompanyType_value m = t) CompanyType_members \<noteq> None"
    by (simp add: find_None_iff set_CompanyType_members)
  then show ?thesis by (auto simp: company_type_of_known)
qed

lemma company_sub_type_of_value:
  assumes "company_sub_type_of t = Inr cst"
  shows "case cst of None \<Rightarrow> t = [] | Some m \<Rightarrow> CompanySubType_value m = t"
proof (cases "t = []")
  case True
  with assms show ?thesis by (simp add: company_sub_type_of_def)
next
  case False
  with assms obtain m where
    m: "find (\<lambda>m. CompanySubType_value m = t) CompanySubType_members = Some m" "cst = Some m"
    by (auto simp: company_sub_type_of_def CompanySubType_of_value_def ebind_eq_Inr
        CompanySubType_of_name_name split: option.splits)
  from m(1) have "CompanySubType_value m = t" by (auto simp: find_Some_iff)
  with m(2) show ?thesis by simp
qed

lemma Charity_is_no_CompanyType: "\<forall>m. CompanyType_value m \<noteq> ''Charity''"
proof
  fix m show "CompanyType_value m \<noteq> ''Charity''" by (cases m) simp_all
qed

lemma Cooperative_is_no_CompanySubType: "\<forall>m. CompanySubType_value m \<noteq> ''Co-operative''"
proof
  fix m show "CompanySubType_value m \<noteq> ''Co-operative''" by (cases m) simp_all
qed

lemma result_rows_filter: "result_rows (filter P soup) = filter P (result_rows soup)"
  by (induction soup) (simp_all add: result_rows_def)

lemma search_in_pages_filter:
  "search_in_pages (Some rn) st soup soup1 =
     search_in_pages None st (filter (row_kept rn) soup) soup1"
  by (simp add: search_in_pages_def result_rows_filter extract_rows_filter)

lemma extract_row_names:
  assumes "extract_row rn st sic r = Inr (Some c)"
  shows "\<exists>a t3. a_text r = Some a \<and> li_text (ul_items r) 3 = Inr t3 \<and>
           (primary_name c \<noteq> [] \<longleftrightarrow> a \<noteq> [] \<and> \<not> prefix ''('' a) \<and>
           (local_registration_number c \<noteq> [] \<longleftrightarrow> t3 \<noteq> [] \<and> \<not> prefix '' - '' t3)"
proof -
  from extract_row_SomeD [OF assms] obtain lrn a pn t3 where
    *: "row_registration_number r = Inr lrn" "a_text r = Some a"
       "py_get (py_split ''('' a) 0 = Inr pn" "li_text (ul_items r) 3 = Inr t3"
       "primary_name c = pn" "local_registration_number c = lrn"
    by auto
  from *(3) have pn: "pn = hd (py_split ''('' a)" by (simp add: py_get_split_0)
  from *(1,4) have lrn: "lrn = hd (py_split '' - '' t3)"
    by (simp add: row_registration_number_def py_get_split_0)
  have "pn = [] \<longleftrightarrow> a = [] \<or> prefix ''('' a"
    unfolding pn by (rule hd_py_split_Nil_iff) simp
  moreover have "lrn = [] \<longleftrightarrow> t3 = [] \<or> prefix '' - '' t3"
    unfolding lrn by (rule hd_py_split_Nil_iff) simp
  ultimately show ?thesis using *(2,4,5,6) by blast
qed

lemma industry_codes_of_eq:
  assumes "length (fst sic) = length (snd sic)" and "industry_codes_of sic t6 = Inr ics"
  shows "(t6 = [] \<longrightarrow> ics = None) \<and>
         (t6 \<noteq> [] \<longrightarrow>
            (\<exists>b a. find_sep '' - '' t6 = Some (b, a) \<and>
                   ics = Some (map (\<lambda>tok. \<lparr>code = tok, description = sic_description sic tok\<rparr>)
                                (py_split '', '' (hd (py_split '' - '' a))))))"
proof (cases "t6 = []")
  case True
  with assms(2) show ?thesis by (simp add: industry_codes_of_def)
next
  case False
  with assms(2) obtain seg where
    seg: "py_get (py_split '' - '' t6) 1 = Inr seg"
      "ebind (build_industry_codes sic [] (py_split '', '' seg)) (\<lambda>cs. Inr (Some cs)) = Inr ics"
    by (auto simp: industry_codes_of_def ebind_eq_Inr)
  from seg(1) obtain b a where ba: "find_sep '' - '' t6 = Some (b, a)"
      "seg = hd (py_split '' - '' a)"
    using py_get_split_1 [of "'' - ''" t6] by (cases "find_sep '' - '' t6") auto
  from seg(2) have "ics = Some (map (\<lambda>tok. \<lparr>code = tok, description = sic_description sic tok\<rparr>)
      (py_split '', '' seg))"
    by (simp add: build_industry_codes_eq [OF assms(1)])
  with ba False show ?thesis by simp
qed

lemma load_sic_rows:
  assumes "\<forall>r\<in>set rows. length (td_texts r) \<noteq> 1"
  shows "load_sic cs ds rows =
           Inr (cs @ map (\<lambda>r. td_texts r ! 0) (filter (\<lambda>r. td_texts r \<noteq> []) rows),
                ds @ map (\<lambda>r. td_texts r ! 1) (filter (\<lambda>r. td_texts r \<noteq> []) rows))"
  using assms
proof (induction rows arbitrary: cs ds)
  case Nil
  then show ?case by simp
next
  case (Cons r rows)
  then have IH: "\<And>cs ds. load_sic cs ds rows =
           Inr (cs @ map (\<lambda>r. td_texts r ! 0) (filter (\<lambda>r. td_texts r \<noteq> []) rows),
                ds @ map (\<lambda>r. td_texts r ! 1) (filter (\<lambda>r. td_texts r \<noteq> []) rows))"
    by simp
  show ?case
  proof (cases "td_texts r")
    case Nil
    then show ?thesis by (simp add: IH)
  next
    case (Cons c0 tds)
    with Cons.prems obtain c1 tds' where "tds = c1 # tds'" by (cases tds) auto
    with Cons show ?thesis by (simp add: IH py_get_def)
  qed
qed

section \<open>The claims\<close>

text \<open>
  C1. A row whose third list item is \<open>07850377 - Incorporated on 16 November 2011\<close>
  has the registration number \<open>07850377\<close>, the text before the first \<open>" - "\<close>, and
  the incorporation date 2011-11-16, parsed from the text after \<open>" on "\<close>. Neither step
  can fail on this text, and every company extracted from such a row carries both values.
\<close>

theorem C1_registration_number_and_incorporation_date:
  assumes "li_text (ul_items tr_data) 3 = Inr ''07850377 - Incorporated on 16 November 2011''"
  shows "row_registration_number tr_data = Inr ''07850377'' \<and>
         date_after_on ''07850377 - Incorporated on 16 November 2011'' = Inr (Some (Date 2011 11 16)) \<and>
         (extract_row registration_number st sic tr_data = Inr (Some c) \<longrightarrow>
            local_registration_number c = ''07850377'' \<and>
            incorporation_date c = Some (Date 2011 11 16))"
proof -
  have lrn: "row_registration_number tr_data = Inr ''07850377''"
    using assms by (simp add: row_registration_number_def registration_number_of_example_text)
  have "local_registration_number c = ''07850377'' \<and> incorporation_date c = Some (Date 2011 11 16)"
    if "extract_row registration_number st sic tr_data = Inr (Some c)"
  proof -
    from extract_row_SomeD [OF that] obtain lrn' t3 inc where
      *: "row_registration_number tr_data = Inr lrn'" "li_text (ul_items tr_data) 3 = Inr t3"
         "date_after_on t3 = Inr inc" "local_registration_number c = lrn'"
         "incorporation_date c = inc"
      by auto
    from *(2) assms have "t3 = ''07850377 - Incorporated on 16 November 2011''" by simp
    with *(3) have "inc = Some (Date 2011 11 16)" by (simp add: date_after_on_incorporated)
    moreover from *(1) lrn have "lrn' = ''07850377''" by simp
    ultimately show ?thesis using *(4,5) by simp
  qed
  with lrn date_after_on_incorporated show ?thesis by blast
qed

text \<open>The example row is such a row, and it is extracted.\<close>

theorem C1_registration_number_and_incorporation_date_witness:
  "li_text (ul_items example_row) 3 = Inr ''07850377 - Incorporated on 16 November 2011'' \<and>
   extract_row None ACTIVE example_sic example_row = Inr (Some example_company) \<and>
   local_registration_number example_company = ''07850377'' \<and>
   incorporation_date example_company = Some (Date 2011 11 16)"
proof -
  note h = example_row_item3
  from C1_registration_number_and_incorporation_date [OF h, of None ACTIVE example_sic example_company]
    example_row_extracted
  have "local_registration_number example_company = ''07850377'' \<and>
        incorporation_date example_company = Some (Date 2011 11 16)" by blast
  with h example_row_extracted show ?thesis by blast
qed

text \<open>
  C2 as the specification states it: the filter is applied after the row has been parsed,
  so that a row the filter rejects still raises when its company type is unknown. In the
  code the filter comes first (lines 186 to 190) and everything else is inside it: the row
  below, of an unknown company type and with a registration number without \<open>078\<close>, is
  passed over without an error, and the search returns the empty list.
\<close>

theorem C2_filter_after_parsing_counterexample:
  "row_registration_number unselected_row = Inr ''070001'' \<and>
   \<not> py_in ''078'' ''070001'' \<and>
   extract_row (Some ''078'') ACTIVE example_sic unselected_row = Inr None \<and>
   search_in_pages (Some ''078'') ACTIVE [unselected_row] example_sic_page = Inr [] \<and>
   spec_extract_row (Some ''078'') ACTIVE example_sic unselected_row =
     Inl (ValueError (NotAValidEnum ''Charity'' ''CompanyType''))"
  by code_simp

text \<open>
  C2, amended. With a \<open>registration_number\<close> argument, a row is passed over exactly
  when its registration number does not contain the argument as a contiguous run of
  characters; the test comes before any other parsing of the row, so a row that fails it
  raises nothing and leaves no trace, and a row that passes it is treated as in a search
  without the argument. The search with the argument is the search without it on the
  rows the filter keeps.
\<close>

theorem C2_filter_before_parsing:
  "(row_registration_number tr_data = Inr lrn \<and> \<not> py_in rn lrn \<longrightarrow>
      extract_row (Some rn) st sic tr_data = Inr None) \<and>
   (row_registration_number tr_data = Inr lrn \<and> py_in rn lrn \<longrightarrow>
      extract_row (Some rn) st sic tr_data = extract_row None st sic tr_data) \<and>
   (py_in rn lrn \<longleftrightarrow> (\<exists>p q. lrn = p @ rn @ q)) \<and>
   extract_rows (Some rn) st sic companies rows =
     extract_rows None st sic companies (filter (row_kept rn) rows) \<and>
   search_in_pages (Some rn) st soup soup1 =
     search_in_pages None st (filter (row_kept rn) soup) soup1"
  using extract_row_filtered_out [of tr_data lrn rn st sic]
    extract_row_filter_passed [of tr_data lrn rn st sic]
    py_in_iff [of rn lrn] extract_rows_filter [of rn st sic companies rows]
    search_in_pages_filter [of rn st soup soup1]
  by blast

text \<open>A row that the filter rejects and a row that it keeps, on one page.\<close>

theorem C2_filter_before_parsing_witness:
  "row_registration_number unselected_row = Inr ''070001'' \<and>
   \<not> py_in ''078'' ''070001'' \<and>
   extract_row (Some ''078'') ACTIVE example_sic unselected_row = Inr None \<and>
   row_registration_number example_row = Inr ''07850377'' \<and>
   py_in ''078'' ''07850377'' \<and>
   extract_row (Some ''078'') ACTIVE example_sic example_row = Inr (Some example_company) \<and>
   search_in_pages (Some ''078'') ACTIVE [unselected_row, example_row] example_sic_page =
     Inr [example_company]"
proof -
  have a1: "row_registration_number unselected_row = Inr ''070001''" by code_simp
  have a2: "\<not> py_in ''078'' ''070001''" by code_simp
  have b1: "row_registration_number example_row = Inr ''07850377''" by code_simp
  have b2: "py_in ''078'' ''07850377''" by code_simp
  have k: "filter (row_kept ''078'') [unselected_row, example_row] = [example_row]"
    using a1 a2 b1 b2 by (simp add: row_kept_def)
  from C2_filter_before_parsing [where tr_data = unselected_row and lrn = "''070001''"
      and rn = "''078''" and st = ACTIVE and sic = example_sic] a1 a2
  have r1: "extract_row (Some ''078'') ACTIVE example_sic unselected_row = Inr None" by blast
  from C2_filter_before_parsing [where tr_data = example_row and lrn = "''07850377''"
      and rn = "''078''" and st = ACTIVE and sic = example_sic] b1 b2
  have "extract_row (Some ''078'') ACTIVE example_sic example_row =
        extract_row None ACTIVE example_sic example_row" by blast
  then have r2: "extract_row (Some ''078'') ACTIVE example_sic example_row =
      Inr (Some example_company)" by (simp add: example_row_extracted)
  from C2_filter_before_parsing [where rn = "''078''" and st = ACTIVE
      and soup = "[unselected_row, example_row]" and ?soup1.0 = example_sic_page]
  have "search_in_pages (Some ''078'') ACTIVE [unselected_row, example_row] example_sic_page =
     search_in_pages None ACTIVE (filter (row_kept ''078'') [unselected_row, example_row])
       example_sic_page" by blast
  then have r3: "search_in_pages (Some ''078'') ACTIVE [unselected_row, example_row]
      example_sic_page = Inr [example_company]"
    by (simp only: k example_search_in_pages)
  from a1 a2 r1 b1 b2 r2 r3 show ?thesis by blast
qed

text \<open>
  C3 as the specification states it: every company returned has a non-empty primary name
  and a non-empty registration number. Nothing in the code checks either: the row below
  gives a company in which both are empty.
\<close>

theorem C3_empty_names_counterexample:
  "search_in_pages None ACTIVE [nameless_row] example_sic_page =
     Inr [\<lparr>primary_name = [], local_registration_number = [],
           registered_office_address = ''1 High Street'', status = ACTIVE,
           company_type = PRIVATE_LIMITED_COMPANY, company_sub_type = None,
           incorporation_date = Some (Date 2020 5 1), dissolved_date = None,
           next_statement_date = None, last_statement_date = None,
           next_accounts_date = None, last_accounts_date = None,
           industry_codes = None, previous_company_names = None\<rparr>]"
  by code_simp

text \<open>
  C3, amended. The primary name of an extracted company is non-empty exactly when the
  link text of its row is non-empty and does not start with \<open>(\<close>, and its registration
  number is non-empty exactly when the third list item is non-empty and does not start
  with \<open>" - "\<close>. On a page where every result row is so, every company returned has
  a non-empty primary name and a non-empty registration number.
\<close>

theorem C3_names_non_empty:
  "(extract_row registration_number st sic tr_data = Inr (Some c) \<longrightarrow>
      (\<exists>a t3. a_text tr_data = Some a \<and> li_text (ul_items tr_data) 3 = Inr t3 \<and>
              (primary_name c \<noteq> [] \<longleftrightarrow> a \<noteq> [] \<and> \<not> prefix ''('' a) \<and>
              (local_registration_number c \<noteq> [] \<longleftrightarrow> t3 \<noteq> [] \<and> \<not> prefix '' - '' t3))) \<and>
   (search_in_pages registration_number st soup soup1 = Inr cs \<and>
    (\<forall>r\<in>set (result_rows soup).
       (\<forall>a. a_text r = Some a \<longrightarrow> a \<noteq> [] \<and> \<not> prefix ''('' a) \<and>
       (\<forall>t3. li_text (ul_items r) 3 = Inr t3 \<longrightarrow> t3 \<noteq> [] \<and> \<not> prefix '' - '' t3)) \<longrightarrow>
    (\<forall>c\<in>set cs. primary_name c \<noteq> [] \<and> local_registration_number c \<noteq> []))"
proof (intro conjI impI)
  assume "extract_row registration_number st sic tr_data = Inr (Some c)"
  then show "\<exists>a t3. a_text tr_data = Some a \<and> li_text (ul_items tr_data) 3 = Inr t3 \<and>
              (primary_name c \<noteq> [] \<longleftrightarrow> a \<noteq> [] \<and> \<not> prefix ''('' a) \<and>
              (local_registration_number c \<noteq> [] \<longleftrightarrow> t3 \<noteq> [] \<and> \<not> prefix '' - '' t3)"
    by (rule extract_row_names)
next
  assume h: "search_in_pages registration_number st soup soup1 = Inr cs \<and>
    (\<forall>r\<in>set (result_rows soup).
       (\<forall>a. a_text r = Some a \<longrightarrow> a \<noteq> [] \<and> \<not> prefix ''('' a) \<and>
       (\<forall>t3. li_text (ul_items r) 3 = Inr t3 \<longrightarrow> t3 \<noteq> [] \<and> \<not> prefix '' - '' t3))"
  then obtain sic' where
    rows: "extract_rows registration_number st sic' [] (result_rows soup) = Inr cs"
    by (auto simp: search_in_pages_def ebind_eq_Inr)
  show "\<forall>c\<in>set cs. primary_name c \<noteq> [] \<and> local_registration_number c \<noteq> []"
  proof
    fix c' assume "c' \<in> set cs"
    with extract_rows_from_rows [OF rows] obtain r where
      r: "r \<in> set (result_rows soup)" "extract_row registration_number st sic' r = Inr (Some c')"
      by auto
    from extract_row_names [OF r(2)] obtain a t3 where
      *: "a_text r = Some a" "li_text (ul_items r) 3 = Inr t3"
         "primary_name c' \<noteq> [] \<longleftrightarrow> a \<noteq> [] \<and> \<not> prefix ''('' a"
         "local_registration_number c' \<noteq> [] \<longleftrightarrow> t3 \<noteq> [] \<and> \<not> prefix '' - '' t3"
      by blast
    from h r(1) *(1,2) have "a \<noteq> [] \<and> \<not> prefix ''('' a" "t3 \<noteq> [] \<and> \<not> prefix '' - '' t3"
      by blast+
    with *(3,4) show "primary_name c' \<noteq> [] \<and> local_registration_number c' \<noteq> []" by blast
  qed
qed

text \<open>The example page.\<close>

theorem C3_names_non_empty_witness:
  "search_in_pages None ACTIVE [example_row] example_sic_page = Inr [example_company] \<and>
   primary_name example_company \<noteq> [] \<and> local_registration_number example_company \<noteq> []"
proof -
  note h = example_search_in_pages
  have rows: "result_rows [example_row] = [example_row]" by code_simp
  have a: "a_text example_row = Some ''Foo Ltd (dissolved)''" by code_simp
  have t: "li_text (ul_items example_row) 3 = Inr ''07850377 - Incorporated on 16 November 2011''"
    by code_simp
  have ok: "\<forall>r\<in>set (result_rows [example_row]).
       (\<forall>a. a_text r = Some a \<longrightarrow> a \<noteq> [] \<and> \<not> prefix ''('' a) \<and>
       (\<forall>t3. li_text (ul_items r) 3 = Inr t3 \<longrightarrow> t3 \<noteq> [] \<and> \<not> prefix '' - '' t3)"
    by (simp add: rows a t)
  from C3_names_non_empty [where registration_number = None and st = ACTIVE
      and soup = "[example_row]" and ?soup1.0 = example_sic_page and cs = "[example_company]"]
    h ok
  have "\<forall>c\<in>set [example_company]. primary_name c \<noteq> [] \<and> local_registration_number c \<noteq> []"
    by blast
  then have "primary_name example_company \<noteq> [] \<and> local_registration_number example_company \<noteq> []"
    by simp
  with h show ?thesis by blast
qed

text \<open>
  C4 as the specification states it: the primary name is the link text before the first
  \<open>(\<close>, trimmed. The code does not trim: the link text \<open>Foo Ltd (dissolved)\<close>
  gives the primary name \<open>Foo Ltd\<close> followed by a space.
\<close>

theorem C4_primary_name_untrimmed_counterexample:
  "extract_row None ACTIVE example_sic example_row = Inr (Some example_company) \<and>
   a_text example_row = Some ''Foo Ltd (dissolved)'' \<and>
   primary_name example_company = ''Foo Ltd '' \<and>
   spec_primary_name ''Foo Ltd (dissolved)'' = ''Foo Ltd''"
  by code_simp

text \<open>
  C4, amended. The primary name of every extracted company is the text of the row's link
  up to its first \<open>(\<close>, the whole text when it has none, with nothing trimmed.
\<close>

theorem C4_primary_name_before_parenthesis:
  assumes "extract_row registration_number st sic tr_data = Inr (Some c)"
  shows "\<exists>a. a_text tr_data = Some a \<and> primary_name c = takeWhile (\<lambda>ch. ch \<noteq> CHR ''('') a"
proof -
  from extract_row_SomeD [OF assms] obtain a pn where
    *: "a_text tr_data = Some a" "py_get (py_split ''('' a) 0 = Inr pn" "primary_name c = pn"
    by auto
  from *(2) have "pn = hd (py_split ''('' a)" by (simp add: py_get_split_0)
  then have "pn = takeWhile (\<lambda>ch. ch \<noteq> CHR ''('') a" by (simp add: hd_py_split_char)
  with * show ?thesis by simp
qed

text \<open>The example row and its company.\<close>

theorem C4_primary_name_before_parenthesis_witness:
  "extract_row None ACTIVE example_sic example_row = Inr (Some example_company) \<and>
   (\<exists>a. a_text example_row = Some a \<and>
        primary_name example_company = takeWhile (\<lambda>ch. ch \<noteq> CHR ''('') a)"
proof -
  note h = example_row_extracted
  from C4_primary_name_before_parenthesis [OF h] h show ?thesis by blast
qed

text \<open>
  C5 as the specification states it: the tokens are those of the text after the first
  \<open>" - "\<close>. The code takes the second piece of \<open>split(" - ")\<close>, which ends at the
  next \<open>" - "\<close>: for the sixth item \<open>SIC codes - 78109 - 88100\<close> it gives the one code
  \<open>78109\<close>, where the text after the first \<open>" - "\<close> is the one token
  \<open>78109 - 88100\<close>.
\<close>

theorem C5_text_after_first_dash_counterexample:
  "li_text (ul_items two_dash_row) 6 = Inr ''SIC codes - 78109 - 88100'' \<and>
   load_sic [] [] example_sic_page = Inr example_sic \<and>
   map_sum id (map_option industry_codes) (extract_row None ACTIVE example_sic two_dash_row) =
     Inr (Some (Some [\<lparr>code = ''78109'',
                       description = ''Other activities of employment placement agencies''\<rparr>])) \<and>
   spec_industry_codes example_sic ''SIC codes - 78109 - 88100'' =
     Some [\<lparr>code = ''78109 - 88100'', description = []\<rparr>]"
  by code_simp

text \<open>
  C5, amended. For every extracted company, with the table of codes as the loader
  returned it: if the sixth list item is empty, \<open>industry_codes\<close> is \<open>None\<close>;
  otherwise the item contains \<open>" - "\<close>, and \<open>industry_codes\<close> is the list of one
  \<open>IndustryCode\<close> per token, in order, of the text between the first \<open>" - "\<close> and the
  next one (the end of the text when there is no other) split on \<open>", "\<close>, each with the
  description of its code in the table and the empty string when the code is not there.
\<close>

theorem C5_industry_codes:
  assumes "load_sic [] [] soup1 = Inr sic"
    and "extract_row registration_number st sic tr_data = Inr (Some c)"
  shows "\<exists>t6. li_text (ul_items tr_data) 6 = Inr t6 \<and>
           (t6 = [] \<longrightarrow> industry_codes c = None) \<and>
           (t6 \<noteq> [] \<longrightarrow>
              (\<exists>b a. find_sep '' - '' t6 = Some (b, a) \<and>
                 industry_codes c =
                   Some (map (\<lambda>tok. \<lparr>code = tok, description = sic_description sic tok\<rparr>)
                          (py_split '', '' (hd (py_split '' - '' a))))))"
proof -
  obtain cs ds where sic: "sic = (cs, ds)" by (cases sic)
  with assms(1) have "length cs = length ds" using load_sic_length [of "[]" "[]" soup1 cs ds]
    by simp
  with sic have len: "length (fst sic) = length (snd sic)" by simp
  from extract_row_SomeD [OF assms(2)] obtain t6 ics where
    *: "li_text (ul_items tr_data) 6 = Inr t6" "industry_codes_of sic t6 = Inr ics"
       "industry_codes c = ics"
    by auto
  from industry_codes_of_eq [OF len *(2)] *(1,3) show ?thesis by blast
qed

text \<open>The example row and the example table.\<close>

theorem C5_industry_codes_witness:
  "load_sic [] [] example_sic_page = Inr example_sic \<and>
   extract_row None ACTIVE example_sic example_row = Inr (Some example_company) \<and>
   (\<exists>t6. li_text (ul_items example_row) 6 = Inr t6 \<and>
      (t6 = [] \<longrightarrow> industry_codes example_company = None) \<and>
      (t6 \<noteq> [] \<longrightarrow>
         (\<exists>b a. find_sep '' - '' t6 = Some (b, a) \<and>
            industry_codes example_company =
              Some (map (\<lambda>tok. \<lparr>code = tok, description = sic_description example_sic tok\<rparr>)
                     (py_split '', '' (hd (py_split '' - '' a)))))))"
proof -
  have h1: "load_sic [] [] example_sic_page = Inr example_sic" by code_simp
  note h2 = example_row_extracted
  from C5_industry_codes [OF h1 h2] h1 h2 show ?thesis by blast
qed

text \<open>
  C6. The loader passes over a row without cells, by the test \<open>if td_data\<close>, but reads
  \<open>td_data[1]\<close> of every other row: a row with one cell raises \<open>IndexError\<close>, and the
  whole search with it.
\<close>

theorem C6_one_cell_row_raises:
  "td_texts one_cell_row = [''01110''] \<and>
   load_sic [] [] [one_cell_row] = Inl IndexError \<and>
   search_in_pages None ACTIVE [example_row] (example_sic_page @ [one_cell_row]) =
     Inl IndexError"
  by code_simp

text \<open>
  C7 as the specification states it, for every row and with a failure of a kind of its
  own, does not hold. A row whose company type \<open>Charity\<close> is the value of no member, and
  which the filter on the registration number rejects, raises nothing: it is skipped, and
  the search returns the empty list. The same company type in a selected row without its
  link raises \<open>AttributeError\<close>, before the type is looked up. And the failure of the
  lookup is Python's \<open>ValueError\<close>, the class of the failure of \<open>strptime\<close> on the
  date of the same row: the two differ in their message only.
\<close>

theorem C7_enum_failure_not_distinct_counterexample:
  "li_text (ul_items unselected_row) 1 = Inr ''Charity'' \<and>
   CompanyType_of_value ''Charity'' = Inl (ValueError (NotAValidEnum ''Charity'' ''CompanyType'')) \<and>
   extract_row (Some ''078'') ACTIVE example_sic unselected_row = Inr None \<and>
   search_in_pages (Some ''078'') ACTIVE [unselected_row] example_sic_page = Inr [] \<and>
   li_text (ul_items linkless_row) 1 = Inr ''Charity'' \<and>
   extract_row None ACTIVE example_sic linkless_row = Inl AttributeError \<and>
   date_after_on ''Dissolved on 31 February 2018'' = Inl (ValueError DateOutOfRange) \<and>
   exception_class (ValueError DateOutOfRange) =
     exception_class (ValueError (NotAValidEnum ''Charity'' ''CompanyType''))"
  by code_simp

text \<open>
  C7, amended. Take a row whose first list item, the company-type text, can be read. If
  the registration number cannot be read from the third item, the extraction raises that
  error. If the filter rejects the row, the row is skipped and nothing is looked up. If the
  row is selected and has no link, the extraction raises \<open>AttributeError\<close>. If the row is
  selected and has its link, a company-type text that is the value of no \<open>CompanyType\<close>
  member makes the extraction raise the \<open>ValueError\<close> of the \<open>Enum\<close> constructor,
  which names the text and the class; so does, after a known company type, a non-empty
  sub-type text that is the value of no \<open>CompanySubType\<close> member. The class of both
  failures is \<open>ValueError\<close>. No default stands in for an unknown text: in every
  extracted company the value of the company type is the first list item, and the
  sub-type is either \<open>None\<close>, for an empty second item, or the member whose value is the
  second item.
\<close>

theorem C7_unknown_enum_value_raises:
  assumes "li_text (ul_items tr_data) 1 = Inr t1"
  shows "(row_registration_number tr_data = Inl e \<longrightarrow>
            extract_row registration_number st sic tr_data = Inl e) \<and>
         (row_registration_number tr_data = Inr lrn \<and> \<not> row_selected registration_number lrn \<longrightarrow>
            extract_row registration_number st sic tr_data = Inr None) \<and>
         (row_registration_number tr_data = Inr lrn \<and> row_selected registration_number lrn \<and>
            a_text tr_data = None \<longrightarrow>
            extract_row registration_number st sic tr_data = Inl AttributeError) \<and>
         (row_registration_number tr_data = Inr lrn \<and> row_selected registration_number lrn \<and>
            a_text tr_data = Some a \<and> (\<forall>m. CompanyType_value m \<noteq> t1) \<longrightarrow>
            extract_row registration_number st sic tr_data =
              Inl (ValueError (NotAValidEnum t1 ''CompanyType''))) \<and>
         (row_registration_number tr_data = Inr lrn \<and> row_selected registration_number lrn \<and>
            a_text tr_data = Some a \<and> (\<exists>m. CompanyType_value m = t1) \<and>
            li_text (ul_items tr_data) 2 = Inr t2 \<and> t2 \<noteq> [] \<and>
            (\<forall>m. CompanySubType_value m \<noteq> t2) \<longrightarrow>
            extract_row registration_number st sic tr_data =
              Inl (ValueError (NotAValidEnum t2 ''CompanySubType''))) \<and>
         (extract_row registration_number st sic tr_data = Inr (Some c) \<longrightarrow>
            CompanyType_value (company_type c) = t1 \<and>
            (\<exists>t2'. li_text (ul_items tr_data) 2 = Inr t2' \<and>
                   (case company_sub_type c of
                      None \<Rightarrow> t2' = []
                    | Some m \<Rightarrow> CompanySubType_value m = t2'))) \<and>
         exception_class (ValueError (NotAValidEnum t1 ''CompanyType'')) = ''ValueError'' \<and>
         exception_class (ValueError (NotAValidEnum t2 ''CompanySubType'')) = ''ValueError''"
proof (intro conjI impI)
  assume "row_registration_number tr_data = Inl e"
  then show "extract_row registration_number st sic tr_data = Inl e"
    by (simp add: extract_row_def)
next
  assume "row_registration_number tr_data = Inr lrn \<and> \<not> row_selected registration_number lrn"
  then show "extract_row registration_number st sic tr_data = Inr None"
    by (simp add: extract_row_def)
next
  assume "row_registration_number tr_data = Inr lrn \<and> row_selected registration_number lrn \<and>
          a_text tr_data = None"
  then show "extract_row registration_number st sic tr_data = Inl AttributeError"
    by (simp add: extract_row_def)
next
  assume h: "row_registration_number tr_data = Inr lrn \<and> row_selected registration_number lrn \<and>
             a_text tr_data = Some a \<and> (\<forall>m. CompanyType_value m \<noteq> t1)"
  then have "company_type_of t1 = Inl (ValueError (NotAValidEnum t1 ''CompanyType''))"
    by (simp add: company_type_of_unknown)
  with assms h show "extract_row registration_number st sic tr_data =
      Inl (ValueError (NotAValidEnum t1 ''CompanyType''))"
    by (simp add: extract_row_def py_get_split_0)
next
  assume h: "row_registration_number tr_data = Inr lrn \<and> row_selected registration_number lrn \<and>
             a_text tr_data = Some a \<and> (\<exists>m. CompanyType_value m = t1) \<and>
             li_text (ul_items tr_data) 2 = Inr t2 \<and> t2 \<noteq> [] \<and>
             (\<forall>m. CompanySubType_value m \<noteq> t2)"
  then obtain ct where ct: "company_type_of t1 = Inr ct"
    using company_type_of_total [of t1] by blast
  from h have "company_sub_type_of t2 = Inl (ValueError (NotAValidEnum t2 ''CompanySubType''))"
    by (simp add: company_sub_type_of_unknown)
  with assms ct h show "extract_row registration_number st sic tr_data =
      Inl (ValueError (NotAValidEnum t2 ''CompanySubType''))"
    by (simp add: extract_row_def py_get_split_0)
next
  assume ok: "extract_row registration_number st sic tr_data = Inr (Some c)"
  from extract_row_SomeD [OF ok] obtain t1' ct t2' cst where
    *: "li_text (ul_items tr_data) 1 = Inr t1'" "company_type_of t1' = Inr ct"
       "li_text (ul_items tr_data) 2 = Inr t2'" "company_sub_type_of t2' = Inr cst"
       "company_type c = ct" "company_sub_type c = cst"
    by auto
  from *(1) assms have "t1' = t1" by simp
  with *(2,5) show "CompanyType_value (company_type c) = t1"
    by (simp add: company_type_of_value)
  from company_sub_type_of_value [OF *(4)] *(3,6)
  show "\<exists>t2'. li_text (ul_items tr_data) 2 = Inr t2' \<and>
          (case company_sub_type c of None \<Rightarrow> t2' = [] | Some m \<Rightarrow> CompanySubType_value m = t2')"
    by auto
next
  show "exception_class (ValueError (NotAValidEnum t1 ''CompanyType'')) = ''ValueError''"
    by (simp add: exception_class_def)
next
  show "exception_class (ValueError (NotAValidEnum t2 ''CompanySubType'')) = ''ValueError''"
    by (simp add: exception_class_def)
qed

text \<open>
  A row of an unknown company type and a row of an unknown sub-type; a row that the filter
  rejects, a row without its link and a row of one list item; and the example row, which
  is extracted.
\<close>

theorem C7_unknown_enum_value_raises_witness:
  "row_registration_number unknown_type_row = Inr ''07850377'' \<and>
   row_selected None ''07850377'' \<and>
   a_text unknown_type_row = Some ''Foo Ltd (dissolved)'' \<and>
   li_text (ul_items unknown_type_row) 1 = Inr ''Charity'' \<and>
   (\<forall>m. CompanyType_value m \<noteq> ''Charity'') \<and>
   extract_row None ACTIVE example_sic unknown_type_row =
     Inl (ValueError (NotAValidEnum ''Charity'' ''CompanyType'')) \<and>
   li_text (ul_items unknown_sub_type_row) 2 = Inr ''Co-operative'' \<and>
   (\<forall>m. CompanySubType_value m \<noteq> ''Co-operative'') \<and>
   extract_row None ACTIVE example_sic unknown_sub_type_row =
     Inl (ValueError (NotAValidEnum ''Co-operative'' ''CompanySubType'')) \<and>
   row_registration_number unselected_row = Inr ''070001'' \<and>
   \<not> row_selected (Some ''078'') ''070001'' \<and>
   extract_row (Some ''078'') ACTIVE example_sic unselected_row = Inr None \<and>
   a_text linkless_row = None \<and>
   extract_row None ACTIVE example_sic linkless_row = Inl AttributeError \<and>
   row_registration_number (linkless_row\<lparr>ul_items := Some [''Charity'']\<rparr>) = Inl IndexError \<and>
   extract_row None ACTIVE example_sic (linkless_row\<lparr>ul_items := Some [''Charity'']\<rparr>) =
     Inl IndexError \<and>
   extract_row None ACTIVE example_sic example_row = Inr (Some example_company) \<and>
   CompanyType_value (company_type example_company) =
     ''Private limited by guarantee without share capital''"
proof -
  have a1: "row_registration_number unknown_type_row = Inr ''07850377''" by code_simp
  have a2: "row_selected None ''07850377''" by (simp add: row_selected_def)
  have a3: "a_text unknown_type_row = Some ''Foo Ltd (dissolved)''" by code_simp
  have a4: "li_text (ul_items unknown_type_row) 1 = Inr ''Charity''" by code_simp
  note a5 = Charity_is_no_CompanyType
  have b1: "row_registration_number unknown_sub_type_row = Inr ''07850377''" by code_simp
  have b3: "a_text unknown_sub_type_row = Some ''Foo Ltd (dissolved)''" by code_simp
  have b4: "li_text (ul_items unknown_sub_type_row) 1 =
      Inr ''Private limited by guarantee without share capital''" by code_simp
  have b5: "\<exists>m. CompanyType_value m = ''Private limited by guarantee without share capital''"
    by (rule exI [of _ PRIVATE_LIMITED_BY_GUARANTEE_WITHOUT_SHARE_CAPITAL]) simp
  have b6: "li_text (ul_items unknown_sub_type_row) 2 = Inr ''Co-operative''" by code_simp
  have b7: "''Co-operative'' \<noteq> []" by simp
  note b8 = Cooperative_is_no_CompanySubType
  have c1: "row_registration_number unselected_row = Inr ''070001''" by code_simp
  have c2: "\<not> row_selected (Some ''078'') ''070001''" by code_simp
  have c4: "li_text (ul_items unselected_row) 1 = Inr ''Charity''" by code_simp
  have d1: "row_registration_number linkless_row = Inr ''07850377''" by code_simp
  have d3: "a_text linkless_row = None" by code_simp
  have d4: "li_text (ul_items linkless_row) 1 = Inr ''Charity''" by code_simp
  have e1: "row_registration_number (linkless_row\<lparr>ul_items := Some [''Charity'']\<rparr>) =
      Inl IndexError" by code_simp
  have e4: "li_text (ul_items (linkless_row\<lparr>ul_items := Some [''Charity'']\<rparr>)) 1 =
      Inr ''Charity''" by code_simp
  have f4: "li_text (ul_items example_row) 1 =
      Inr ''Private limited by guarantee without share capital''" by code_simp
  note f5 = example_row_extracted
  from C7_unknown_enum_value_raises [where st = ACTIVE and sic = example_sic
      and registration_number = None and a = "''Foo Ltd (dissolved)''"
      and lrn = "''07850377''", OF a4] a1 a2 a3 a5
  have r1: "extract_row None ACTIVE example_sic unknown_type_row =
     Inl (ValueError (NotAValidEnum ''Charity'' ''CompanyType''))" by blast
  from C7_unknown_enum_value_raises [where st = ACTIVE and sic = example_sic
      and registration_number = None and a = "''Foo Ltd (dissolved)''"
      and lrn = "''07850377''" and ?t2.0 = "''Co-operative''", OF b4] b1 a2 b3 b5 b6 b7 b8
  have r2: "extract_row None ACTIVE example_sic unknown_sub_type_row =
     Inl (ValueError (NotAValidEnum ''Co-operative'' ''CompanySubType''))" by blast
  from C7_unknown_enum_value_raises [where st = ACTIVE and sic = example_sic
      and registration_number = "Some ''078''" and lrn = "''070001''", OF c4] c1 c2
  have r3: "extract_row (Some ''078'') ACTIVE example_sic unselected_row = Inr None" by blast
  from C7_unknown_enum_value_raises [where st = ACTIVE and sic = example_sic
      and registration_number = None and lrn = "''07850377''", OF d4] d1 a2 d3
  have r4: "extract_row None ACTIVE example_sic linkless_row = Inl AttributeError" by blast
  from C7_unknown_enum_value_raises [where st = ACTIVE and sic = example_sic
      and registration_number = None and e = IndexError, OF e4] e1
  have r5: "extract_row None ACTIVE example_sic (linkless_row\<lparr>ul_items := Some [''Charity'']\<rparr>) =
     Inl IndexError" by blast
  from C7_unknown_enum_value_raises [where st = ACTIVE and sic = example_sic
      and registration_number = None and c = example_company, OF f4] f5
  have r6: "CompanyType_value (company_type example_company) =
     ''Private limited by guarantee without share capital''" by blast
  from a1 a2 a3 a4 a5 r1 b6 b8 r2 c1 c2 r3 d3 r4 e1 r5 f5 r6 show ?thesis by blast
qed

text \<open>
  C8. The incorporation date and the dissolved date of an extracted company are computed
  by one rule, from the third and from the fourth list item: a text without \<open>" on "\<close>
  (the empty text too) gives no date and no error; a text with \<open>" on "\<close> gives the date
  that \<open>strptime\<close> reads in what follows the first \<open>" on "\<close>, up to the next one if
  there is one. \<open>Dissolved on 11 September 2018\<close> gives 2018-09-11.
\<close>

theorem C8_dates_after_on:
  "(\<not> py_in '' on '' t \<longrightarrow> date_after_on t = Inr None) \<and>
   (py_in '' on '' t \<longrightarrow>
      (\<exists>b a. find_sep '' on '' t = Some (b, a) \<and> t = b @ '' on '' @ a \<and>
             date_after_on t = map_sum id Some (strptime_dBY (hd (py_split '' on '' a))))) \<and>
   date_after_on ''Dissolved on 11 September 2018'' = Inr (Some (Date 2018 9 11)) \<and>
   date_after_on [] = Inr None \<and>
   (extract_row registration_number st sic tr_data = Inr (Some c) \<longrightarrow>
      (\<exists>t3 t4. li_text (ul_items tr_data) 3 = Inr t3 \<and> li_text (ul_items tr_data) 4 = Inr t4 \<and>
               date_after_on t3 = Inr (incorporation_date c) \<and>
               date_after_on t4 = Inr (dissolved_date c)))"
proof -
  have "\<exists>t3 t4. li_text (ul_items tr_data) 3 = Inr t3 \<and> li_text (ul_items tr_data) 4 = Inr t4 \<and>
               date_after_on t3 = Inr (incorporation_date c) \<and>
               date_after_on t4 = Inr (dissolved_date c)"
    if "extract_row registration_number st sic tr_data = Inr (Some c)"
    using extract_row_SomeD [OF that] by auto
  moreover have "date_after_on [] = Inr None" by (simp add: date_after_on_def)
  ultimately show ?thesis
    using date_after_on_absent [of t] date_after_on_present [of t] date_after_on_dissolved
    by blast
qed

text \<open>A text without \<open>" on "\<close>, and the two dates of the example row.\<close>

theorem C8_dates_after_on_witness:
  "\<not> py_in '' on '' ''Registered in 2001'' \<and>
   date_after_on ''Registered in 2001'' = Inr None \<and>
   extract_row None ACTIVE example_sic example_row = Inr (Some example_company) \<and>
   (\<exists>t3 t4. li_text (ul_items example_row) 3 = Inr t3 \<and>
            li_text (ul_items example_row) 4 = Inr t4 \<and>
            date_after_on t3 = Inr (incorporation_date example_company) \<and>
            date_after_on t4 = Inr (dissolved_date example_company))"
proof -
  have h1: "\<not> py_in '' on '' ''Registered in 2001''" by code_simp
  note h2 = example_row_extracted
  note inst = C8_dates_after_on [of "''Registered in 2001''" None ACTIVE example_sic example_row
      example_company]
  from inst h1 have "date_after_on ''Registered in 2001'' = Inr None" by blast
  moreover from inst h2 have
    "\<exists>t3 t4. li_text (ul_items example_row) 3 = Inr t3 \<and>
            li_text (ul_items example_row) 4 = Inr t4 \<and>
            date_after_on t3 = Inr (incorporation_date example_company) \<and>
            date_after_on t4 = Inr (dissolved_date example_company)" by blast
  ultimately show ?thesis using h1 h2 by blast
qed

text \<open>
  C9. Every company that \<open>search_companies\<close> returns has the status the call was given,
  \<open>ACTIVE\<close> when it was given none; no status is read from the page. On the same two
  pages, a search with another status gives the same outcome (the same error, or the same
  companies in the same order) but for the status field of every company.
\<close>

theorem C9_status_is_the_argument:
  "(search_companies web name_arg registration_number status_arg = Inr cs \<longrightarrow>
      (\<forall>c\<in>set cs. Some (status c) =
                    (case status_arg of Omitted \<Rightarrow> Some ACTIVE | Passed s \<Rightarrow> s))) \<and>
   search_in_pages registration_number st' soup soup1 =
     map_sum id (map (\<lambda>c. c\<lparr>status := st'\<rparr>))
       (search_in_pages registration_number st soup soup1)"
proof -
  have "\<forall>c\<in>set cs. Some (status c) = (case status_arg of Omitted \<Rightarrow> Some ACTIVE | Passed s \<Rightarrow> s)"
    if "search_companies web name_arg registration_number status_arg = Inr cs"
  proof -
    from search_companies_pages [OF that] obtain sta url where
      *: "(case status_arg of Omitted \<Rightarrow> Some ACTIVE | Passed s \<Rightarrow> s) = Some sta"
         "search_in_pages registration_number sta (web url) (web sic_url) = Inr cs"
      by blast
    from search_in_pages_status_field [OF *(2)] *(1) show ?thesis by simp
  qed
  with search_in_pages_status [of registration_number st' soup soup1 st] show ?thesis by blast
qed

text \<open>The example pages, searched with the default and with \<open>DISSOLVED\<close>.\<close>

theorem C9_status_is_the_argument_witness:
  "search_companies example_web (Some ''Foo Ltd'') None Omitted = Inr [example_company] \<and>
   status example_company = ACTIVE \<and>
   search_in_pages None DISSOLVED [example_row] example_sic_page =
     Inr [example_company\<lparr>status := DISSOLVED\<rparr>]"
proof -
  note h = example_search_default
  note inst = C9_status_is_the_argument [where web = example_web and name_arg = "Some ''Foo Ltd''"
      and registration_number = None and status_arg = Omitted and cs = "[example_company]"
      and st' = DISSOLVED and soup = "[example_row]" and ?soup1.0 = example_sic_page
      and st = ACTIVE]
  from inst h have "\<forall>c\<in>set [example_company]. Some (status c) = Some ACTIVE" by simp
  then have a: "status example_company = ACTIVE" by simp
  from inst have "search_in_pages None DISSOLVED [example_row] example_sic_page =
     map_sum id (map (\<lambda>c. c\<lparr>status := DISSOLVED\<rparr>))
       (search_in_pages None ACTIVE [example_row] example_sic_page)" by blast
  then have b: "search_in_pages None DISSOLVED [example_row] example_sic_page =
     Inr [example_company\<lparr>status := DISSOLVED\<rparr>]"
    by (simp add: example_search_in_pages)
  from h a b show ?thesis by blast
qed

text \<open>
  C10. A call that passes \<open>status=None\<close> raises \<open>AttributeError\<close> whatever the pages
  are: \<open>status.value\<close> is evaluated while the URL is built, before anything is fetched
  and before any row is read. A call that leaves \<open>status\<close> out is the call with
  \<open>CompanyStatus.ACTIVE\<close>.
\<close>

theorem C10_status_None_fails_before_fetching:
  "search_companies web name_arg registration_number (Passed None) = Inl AttributeError \<and>
   search_companies web name_arg registration_number Omitted =
     search_companies web name_arg registration_number (Passed (Some ACTIVE))"
  by (simp add: search_companies_def)

text \<open>The two calls on the example pages.\<close>

theorem C10_status_None_fails_before_fetching_witness:
  "search_companies example_web (Some ''Foo Ltd'') None (Passed None) = Inl AttributeError \<and>
   search_companies example_web (Some ''Foo Ltd'') None Omitted =
     search_companies example_web (Some ''Foo Ltd'') None (Passed (Some ACTIVE))"
  by (rule C10_status_None_fails_before_fetching)

end
